theory Spec2Isabelle
  imports Main "HOL-Library.Word" "HOL-Library.Char_ord"
begin

section \<open>The ntfy client: data model\<close>

text \<open>
  Go strings are byte sequences; they are modelled as \<open>string\<close> (a list of 8-bit
  characters). An \<open>error\<close> value is represented by its message text, whether it was built
  by \<^verbatim>\<open>errors.New\<close>, by \<^verbatim>\<open>fmt.Errorf\<close> or handed back by a library call.
\<close>

datatype error = ErrorString string

text \<open>
  A Go call either returns or panics (here: by a nil pointer dereference). A function of
  result type \<^verbatim>\<open>(T, error)\<close> returns \<open>error + T\<close>, one of result type \<^verbatim>\<open>error\<close>
  returns \<open>error option\<close> (\<open>None\<close> is \<^verbatim>\<open>nil\<close>).
\<close>

datatype 'a go = Returns 'a | Panics

record Attachment =
  Name :: string
  Type :: string
  Size :: "64 word"
  Expires :: "64 word"
  URL :: string
  Owner :: string

record Message =
  ID :: string
  Event :: string
  Time :: "64 word"
  Topic :: string
  Message :: string
  Title :: string
  Priority :: "64 word"
  Tags :: "string list"
  Click :: string
  Icon :: string
  Attachment :: "Attachment option"
  TopicURL :: string
  SubscriptionID :: string
  Raw :: string

record Config =
  DefaultHost :: string

definition MessageEvent :: string where
  "MessageEvent = ''message''"

definition maxResponseBytes :: nat where
  "maxResponseBytes = 4096"

section \<open>Library calls\<close>

text \<open>
  The request description the options mutate. \<^verbatim>\<open>RequestOption\<close>,
  \<^verbatim>\<open>PublishOption\<close> and \<^verbatim>\<open>SubscribeOption\<close> are the same function type
  \<^verbatim>\<open>func(r *http.Request) error\<close>: an option either fails or leaves an updated request.
\<close>

record Request =
  Method :: string
  RequestURL :: string
  Header :: "(string \<times> string) list"
  RequestBody :: string

type_synonym RequestOption = "Request \<Rightarrow> error + Request"

text \<open>
  A response body is a reader: the bytes it yields, and the error that ends it
  (\<open>None\<close> for a clean \<^verbatim>\<open>io.EOF\<close>, \<open>Some e\<close> when reading fails after those bytes).
\<close>

record Reader =
  content :: string
  read_err :: "error option"

record Response =
  StatusCode :: int
  Body :: Reader

text \<open>
  The state of a \<^verbatim>\<open>bufio.Scanner\<close>: the tokens it still has to hand out, one for each
  \<^verbatim>\<open>Scan()\<close> that returns true, and the error \<^verbatim>\<open>Err()\<close> reports once \<^verbatim>\<open>Scan()\<close> has
  returned false (\<open>None\<close> at a clean end of input).
\<close>

record Scanner =
  tokens :: "string list"
  scan_err :: "error option"

text \<open>
  The calls into Go's standard library whose behaviour the client does not control.
  \<^verbatim>\<open>json.NewDecoder(strings.NewReader(s)).Decode(&m)\<close> with \<^verbatim>\<open>var m *Message\<close> returns
  an error, or returns \<^verbatim>\<open>nil\<close> and leaves \<open>m\<close> either pointing to a decoded value
  (\<open>Some\<close>) or \<^verbatim>\<open>nil\<close> (\<open>None\<close>).
\<close>

record Env =
  json_Decode :: "string \<Rightarrow> error + Message option"
  http_NewRequest :: "string \<Rightarrow> string \<Rightarrow> string \<Rightarrow> error + Request"
  http_Do :: "Request \<Rightarrow> error + Response"
  bufio_NewScanner :: "Reader \<Rightarrow> Scanner"

definition StatusOK :: int where
  "StatusOK = 200"

text \<open>
  \<^verbatim>\<open>io.ReadAll(io.LimitReader(r, n))\<close>: once \<open>n\<close> bytes have been handed out the limited
  reader reports the end of input without touching \<open>r\<close> again; before that, the error of
  \<open>r\<close> is the error of the read.
\<close>

definition ReadAll_LimitReader :: "Reader \<Rightarrow> nat \<Rightarrow> error + string" where
  "ReadAll_LimitReader r n =
     (if n \<le> length (content r) then Inr (take n (content r))
      else case read_err r of None \<Rightarrow> Inr (content r) | Some e \<Rightarrow> Inl e)"

text \<open>
  \<^verbatim>\<open>strings.TrimSpace\<close> removes the leading and then the trailing white-space runes.
  \<open>space_encoding\<close> holds of the UTF-8 encodings of the runes of \<^verbatim>\<open>unicode.IsSpace\<close>:
  U+0009 to U+000D, U+0020, U+0085, U+00A0, U+1680, U+2000 to U+200A, U+2028, U+2029,
  U+202F, U+205F and U+3000.
\<close>

definition space_encoding :: "nat list \<Rightarrow> bool" where
  "space_encoding bs =
     (case bs of
        [b] \<Rightarrow> (9 \<le> b \<and> b \<le> 13) \<or> b = 32
      | [b0, b1] \<Rightarrow> b0 = 0xC2 \<and> (b1 = 0x85 \<or> b1 = 0xA0)
      | [b0, b1, b2] \<Rightarrow>
          (b0 = 0xE1 \<and> b1 = 0x9A \<and> b2 = 0x80)
          \<or> (b0 = 0xE2 \<and> b1 = 0x80 \<and> ((0x80 \<le> b2 \<and> b2 \<le> 0x8A) \<or> b2 = 0xA8 \<or> b2 = 0xA9 \<or> b2 = 0xAF))
          \<or> (b0 = 0xE2 \<and> b1 = 0x81 \<and> b2 = 0x9F)
          \<or> (b0 = 0xE3 \<and> b1 = 0x80 \<and> b2 = 0x80)
      | _ \<Rightarrow> False)"

definition leading_space :: "string \<Rightarrow> nat" where
  "leading_space s =
     (if 1 \<le> length s \<and> space_encoding (map of_char (take 1 s)) then 1
      else if 2 \<le> length s \<and> space_encoding (map of_char (take 2 s)) then 2
      else if 3 \<le> length s \<and> space_encoding (map of_char (take 3 s)) then 3
      else 0)"

definition trailing_space :: "string \<Rightarrow> nat" where
  "trailing_space s =
     (if 1 \<le> length s \<and> space_encoding (map of_char (drop (length s - 1) s)) then 1
      else if 2 \<le> length s \<and> space_encoding (map of_char (drop (length s - 2) s)) then 2
      else if 3 \<le> length s \<and> space_encoding (map of_char (drop (length s - 3) s)) then 3
      else 0)"

function TrimLeft :: "string \<Rightarrow> string" where
  "TrimLeft s = (if leading_space s = 0 then s else TrimLeft (drop (leading_space s) s))"
  by pat_completeness auto
termination
  by (relation "measure length") (auto simp: leading_space_def split: if_splits)

function TrimRight :: "string \<Rightarrow> string" where
  "TrimRight s = (if trailing_space s = 0 then s else TrimRight (take (length s - trailing_space s) s))"
  by pat_completeness auto
termination
  by (relation "measure length") (auto simp: trailing_space_def split: if_splits)

definition TrimSpace :: "string \<Rightarrow> string" where
  "TrimSpace s = TrimRight (TrimLeft s)"

section \<open>The message decoder\<close>

definition toMessage :: "Env \<Rightarrow> string \<Rightarrow> string \<Rightarrow> string \<Rightarrow> (error + Message) go" where
  "toMessage env s topicURL subscriptionID =
     (case json_Decode env s of
        Inl err \<Rightarrow> Returns (Inl err)
      | Inr None \<Rightarrow> Panics
      | Inr (Some m) \<Rightarrow>
          Returns (Inr (m\<lparr>TopicURL := topicURL, SubscriptionID := subscriptionID, Raw := s\<rparr>)))"

section \<open>Topic URL resolution\<close>

text \<open>\<^verbatim>\<open>strings.HasPrefix\<close> and \<^verbatim>\<open>strings.Contains\<close> on byte strings.\<close>

definition HasPrefix :: "string \<Rightarrow> string \<Rightarrow> bool" where
  "HasPrefix s p = (take (length p) s = p)"

definition Contains_slash :: "string \<Rightarrow> bool" where
  "Contains_slash s = (CHR ''/'' \<in> set s)"

text \<open>
  The character class \<^verbatim>\<open>[-_A-Za-z0-9]\<close> of \<^verbatim>\<open>topicRegex\<close>, and the whole pattern
  \<^verbatim>\<open>^[-_A-Za-z0-9]{1,64}$\<close>: Go's \<^verbatim>\<open>$\<close> matches at the end of the text only, so the
  pattern matches exactly the strings of 1 to 64 characters of the class.
\<close>

definition topic_char :: "char \<Rightarrow> bool" where
  "topic_char c = (c = CHR ''-'' \<or> c = CHR ''_''
     \<or> (CHR ''A'' \<le> c \<and> c \<le> CHR ''Z'')
     \<or> (CHR ''a'' \<le> c \<and> c \<le> CHR ''z'')
     \<or> (CHR ''0'' \<le> c \<and> c \<le> CHR ''9''))"

definition topicRegex_MatchString :: "string \<Rightarrow> bool" where
  "topicRegex_MatchString s = (1 \<le> length s \<and> length s \<le> 64 \<and> list_all topic_char s)"

definition expandTopicURL :: "Config \<Rightarrow> string \<Rightarrow> error + string" where
  "expandTopicURL config topic =
     (if HasPrefix topic ''http://'' \<or> HasPrefix topic ''https://'' then Inr topic
      else if Contains_slash topic then Inr (''https://'' @ topic)
      else if \<not> topicRegex_MatchString topic
        then Inl (ErrorString (''invalid topic name: '' @ topic))
      else Inr (DefaultHost config @ ''/'' @ topic))"

section \<open>Requests\<close>

text \<open>
  The loop \<^verbatim>\<open>for _, option := range options\<close> of \<^verbatim>\<open>PublishReader\<close> and
  \<^verbatim>\<open>performSubscribeRequest\<close>: each option works on the request the previous ones left,
  and the first error ends the loop.
\<close>

fun apply_options :: "RequestOption list \<Rightarrow> Request \<Rightarrow> error + Request" where
  "apply_options [] req = Inr req"
| "apply_options (option # options) req =
     (case option req of
        Inl err \<Rightarrow> Inl err
      | Inr req' \<Rightarrow> apply_options options req')"

section \<open>Publishing\<close>

text \<open>
  \<^verbatim>\<open>PublishReader\<close> returns its result together with the requests it handed to
  \<^verbatim>\<open>http.DefaultClient.Do\<close>, which is the only network I/O of the call.
\<close>

definition PublishReader ::
  "Env \<Rightarrow> Config \<Rightarrow> string \<Rightarrow> string \<Rightarrow> RequestOption list
     \<Rightarrow> (error + Message) go \<times> Request list" where
  "PublishReader env config topic body options =
     (case expandTopicURL config topic of
        Inl err \<Rightarrow> (Returns (Inl err), [])
      | Inr topicURL \<Rightarrow>
     (case http_NewRequest env ''POST'' topicURL body of
        Inl err \<Rightarrow> (Returns (Inl err), [])
      | Inr req0 \<Rightarrow>
     (case apply_options options req0 of
        Inl err \<Rightarrow> (Returns (Inl err), [])
      | Inr req \<Rightarrow>
     (case http_Do env req of
        Inl err \<Rightarrow> (Returns (Inl err), [req])
      | Inr resp \<Rightarrow>
     (case ReadAll_LimitReader (Body resp) maxResponseBytes of
        Inl err \<Rightarrow> (Returns (Inl err), [req])
      | Inr b \<Rightarrow>
          if StatusCode resp \<noteq> StatusOK
          then (Returns (Inl (ErrorString (TrimSpace b))), [req])
          else (toMessage env b topicURL [], [req]))))))"

definition Publish ::
  "Env \<Rightarrow> Config \<Rightarrow> string \<Rightarrow> string \<Rightarrow> RequestOption list
     \<Rightarrow> (error + Message) go \<times> Request list" where
  "Publish env config topic message options = PublishReader env config topic message options"

section \<open>The stream engine\<close>

text \<open>
  The loop \<^verbatim>\<open>for scanner.Scan() { ... }\<close>. The arguments are the tokens the scanner still
  holds and the messages sent on \<^verbatim>\<open>msgChan\<close> so far (oldest first); the result is what the
  function returns at the end of the loop, the channel, and the tokens never asked for.
  A send on the channel is taken to complete: the model does not describe a receiver that
  stops receiving.
\<close>

fun read_lines ::
  "Env \<Rightarrow> string \<Rightarrow> string \<Rightarrow> string list \<Rightarrow> Message list
     \<Rightarrow> error option go \<times> Message list \<times> string list" where
  "read_lines env topicURL subscriptionID [] msgChan = (Returns None, msgChan, [])"
| "read_lines env topicURL subscriptionID (messageJSON # rest) msgChan =
     (case toMessage env messageJSON topicURL subscriptionID of
        Panics \<Rightarrow> (Panics, msgChan, rest)
      | Returns (Inl err) \<Rightarrow> (Returns (Some err), msgChan, rest)
      | Returns (Inr m) \<Rightarrow>
          if Event m = MessageEvent
          then read_lines env topicURL subscriptionID rest (msgChan @ [m])
          else read_lines env topicURL subscriptionID rest msgChan)"

text \<open>
  \<^verbatim>\<open>performSubscribeRequest\<close> returns its result, the channel after the call, and the
  requests it handed to \<^verbatim>\<open>http.DefaultClient.Do\<close>. The scanner's final state, and with it
  \<^verbatim>\<open>scanner.Err()\<close>, is dropped, as in the source.
\<close>

definition performSubscribeRequest ::
  "Env \<Rightarrow> Message list \<Rightarrow> string \<Rightarrow> string \<Rightarrow> RequestOption list
     \<Rightarrow> error option go \<times> Message list \<times> Request list" where
  "performSubscribeRequest env msgChan topicURL subscriptionID options =
     (let streamURL = topicURL @ ''/json'' in
      case http_NewRequest env ''GET'' streamURL [] of
        Inl err \<Rightarrow> (Returns (Some err), msgChan, [])
      | Inr req0 \<Rightarrow>
     (case apply_options options req0 of
        Inl err \<Rightarrow> (Returns (Some err), msgChan, [])
      | Inr req \<Rightarrow>
     (case http_Do env req of
        Inl err \<Rightarrow> (Returns (Some err), msgChan, [req])
      | Inr resp \<Rightarrow>
          if StatusCode resp \<noteq> StatusOK
          then (case ReadAll_LimitReader (Body resp) maxResponseBytes of
                  Inl err \<Rightarrow> (Returns (Some err), msgChan, [req])
                | Inr b \<Rightarrow> (Returns (Some (ErrorString (TrimSpace b))), msgChan, [req]))
          else (case read_lines env topicURL subscriptionID
                       (tokens (bufio_NewScanner env (Body resp))) msgChan of
                  (r, msgChan', unread) \<Rightarrow> (r, msgChan', [req])))))"

section \<open>Polling\<close>

text \<open>
  \<^verbatim>\<open>Poll\<close> runs \<^verbatim>\<open>performSubscribeRequest\<close> in a goroutine on a fresh unbuffered channel
  and appends every message it receives, until the goroutine closes the channel; then it
  takes the goroutine's error. A panic of the goroutine ends the program.
  \<^verbatim>\<open>WithPoll()\<close> is defined outside the files at hand and is a parameter here.
\<close>

definition Poll ::
  "Env \<Rightarrow> Config \<Rightarrow> RequestOption \<Rightarrow> string \<Rightarrow> RequestOption list
     \<Rightarrow> (Message list \<times> error option) go \<times> Request list" where
  "Poll env config WithPoll topic options =
     (case expandTopicURL config topic of
        Inl err \<Rightarrow> (Returns ([], Some err), [])
      | Inr topicURL \<Rightarrow>
     (case performSubscribeRequest env [] topicURL [] (options @ [WithPoll]) of
        (Panics, messages, reqs) \<Rightarrow> (Panics, reqs)
      | (Returns err, messages, reqs) \<Rightarrow> (Returns (messages, err), reqs)))"

section \<open>Notions used in the statements\<close>

text \<open>A line decodes when the decoder returns no error and leaves a decoded value.\<close>

definition decodes :: "Env \<Rightarrow> string \<Rightarrow> bool" where
  "decodes env s = (case json_Decode env s of Inr (Some m) \<Rightarrow> True | _ \<Rightarrow> False)"

text \<open>
  The messages \<^verbatim>\<open>toMessage\<close> makes of the lines of a stream, in order, up to the first line
  for which it returns no message.
\<close>

fun decoded_lines :: "Env \<Rightarrow> string \<Rightarrow> string \<Rightarrow> string list \<Rightarrow> Message list" where
  "decoded_lines env topicURL subscriptionID [] = []"
| "decoded_lines env topicURL subscriptionID (s # rest) =
     (case toMessage env s topicURL subscriptionID of
        Returns (Inr m) \<Rightarrow> m # decoded_lines env topicURL subscriptionID rest
      | _ \<Rightarrow> [])"

definition is_message_event :: "Message \<Rightarrow> bool" where
  "is_message_event m = (Event m = ''message'')"

section \<open>A sample environment\<close>

text \<open>The zero value of \<^verbatim>\<open>Message\<close>.\<close>

definition zero_Message :: Message where
  "zero_Message = \<lparr>ID = [], Event = [], Time = 0, Topic = [], Message = [], Title = [],
     Priority = 0, Tags = [], Click = [], Icon = [], Attachment = None,
     TopicURL = [], SubscriptionID = [], Raw = []\<rparr>"

text \<open>
  What \<^verbatim>\<open>encoding/json\<close> makes of a few lines: three well-formed events (field names
  match the JSON keys up to case), the literal \<^verbatim>\<open>null\<close>, which sets the pointer to
  \<^verbatim>\<open>nil\<close> and is no error, and a line that is not JSON. \<open>sample_Decode\<close> agrees with
  the library on these lines and is used on them only.
\<close>

definition line_open :: string where
  \<open>line_open = ''{"event":"open"}''\<close>

definition line_keepalive :: string where
  \<open>line_keepalive = ''{"event":"keepalive"}''\<close>

definition line_hi :: string where
  \<open>line_hi = ''{"event":"message","id":"1","topic":"t","message":"hi"}''\<close>

definition line_null :: string where
  "line_null = ''null''"

definition line_bad :: string where
  "line_bad = ''{bad''"

definition sample_Decode :: "string \<Rightarrow> error + Message option" where
  "sample_Decode s =
     (if s = line_open then Inr (Some (zero_Message\<lparr>Event := ''open''\<rparr>))
      else if s = line_keepalive then Inr (Some (zero_Message\<lparr>Event := ''keepalive''\<rparr>))
      else if s = line_hi
        then Inr (Some (zero_Message\<lparr>ID := ''1'', Event := ''message'', Topic := ''t'', Message := ''hi''\<rparr>))
      else if s = line_null then Inr None
      else Inl (ErrorString ''invalid character''))"

text \<open>
  An environment in which building a request succeeds, every request is answered by
  \<open>resp\<close>, and the scanner over the response body hands out \<open>toks\<close> and then stops with
  \<open>serr\<close>.
\<close>

definition sample_env :: "Response \<Rightarrow> string list \<Rightarrow> error option \<Rightarrow> Env" where
  "sample_env resp toks serr =
     \<lparr>json_Decode = sample_Decode,
      http_NewRequest = (\<lambda>method url body.
         Inr \<lparr>Method = method, RequestURL = url, Header = [], RequestBody = body\<rparr>),
      http_Do = (\<lambda>req. Inr resp),
      bufio_NewScanner = (\<lambda>r. \<lparr>tokens = toks, scan_err = serr\<rparr>)\<rparr>"

definition ok_stream :: Response where
  "ok_stream = \<lparr>StatusCode = 200, Body = \<lparr>content = [], read_err = None\<rparr>\<rparr>"

text \<open>A stream answered with status 200 whose body ends in a failed read.\<close>

definition cut_stream :: Response where
  "cut_stream = \<lparr>StatusCode = 200,
     Body = \<lparr>content = [], read_err = Some (ErrorString ''unexpected EOF'')\<rparr>\<rparr>"

text \<open>
  Two publish responses (a refusal whose body ends in a newline, and an accepted message),
  and three request options: one that adds a header, one that fails, and a stand-in for
  \<^verbatim>\<open>WithPoll()\<close> that adds the query parameter \<^verbatim>\<open>poll=1\<close>.
\<close>

definition quota_response :: Response where
  "quota_response = \<lparr>StatusCode = 429,
     Body = \<lparr>content = ''quota exceeded'' @ [CHR 0x0A], read_err = None\<rparr>\<rparr>"

definition hi_response :: Response where
  "hi_response = \<lparr>StatusCode = 200, Body = \<lparr>content = line_hi, read_err = None\<rparr>\<rparr>"

definition with_title :: RequestOption where
  "with_title req = Inr (req\<lparr>Header := Header req @ [(''X-Title'', ''hello'')]\<rparr>)"

definition with_failure :: RequestOption where
  "with_failure req = Inl (ErrorString ''invalid since'')"

definition with_poll :: RequestOption where
  "with_poll req = Inr (req\<lparr>RequestURL := RequestURL req @ ''?poll=1''\<rparr>)"

section \<open>The client and its subscription registry\<close>

text \<open>
  A \<^verbatim>\<open>context.CancelFunc\<close> is represented by the number of the context it cancels.
\<close>

record subscription =
  sub_ID :: string
  sub_topicURL :: string
  sub_cancel :: nat

text \<open>
  The channel \<^verbatim>\<open>Messages\<close> holds the messages sent and not yet received; the mutex has no
  counterpart, since every operation below runs as one step.
\<close>

record Client =
  Messages :: "Message list"
  client_config :: Config
  subscriptions :: "string \<rightharpoonup> subscription"

text \<open>
  What the client leaves behind in the Go runtime: the contexts whose cancel function has
  been called, the number of contexts made so far by \<^verbatim>\<open>context.WithCancel\<close> (the next one
  gets this number), and the goroutines started with \<^verbatim>\<open>go handleSubscribeConnLoop(...)\<close>,
  each with its context, topic URL, subscription id and options.
\<close>

record Runtime =
  canceled :: "nat set"
  contexts :: nat
  goroutines :: "(nat \<times> string \<times> string \<times> RequestOption list) list"

definition New :: "Config \<Rightarrow> Client" where
  "New config = \<lparr>Messages = [], client_config = config, subscriptions = Map.empty\<rparr>"

text \<open>The argument \<open>random\<close> is the string \<^verbatim>\<open>util.RandomString(10)\<close> returns in this call.\<close>

definition Subscribe ::
  "Client \<Rightarrow> Runtime \<Rightarrow> string \<Rightarrow> string \<Rightarrow> RequestOption list
     \<Rightarrow> (error + string) \<times> Client \<times> Runtime" where
  "Subscribe c rt random topic options =
     (case expandTopicURL (client_config c) topic of
        Inl err \<Rightarrow> (Inl err, c, rt)
      | Inr topicURL \<Rightarrow>
          (let subscriptionID = random;
               ctx = contexts rt
           in (Inr subscriptionID,
               c\<lparr>subscriptions := (subscriptions c)(subscriptionID \<mapsto>
                    \<lparr>sub_ID = subscriptionID, sub_topicURL = topicURL, sub_cancel = ctx\<rparr>)\<rparr>,
               rt\<lparr>contexts := Suc ctx,
                  goroutines := goroutines rt @ [(ctx, topicURL, subscriptionID, options)]\<rparr>)))"

definition Unsubscribe :: "Client \<Rightarrow> Runtime \<Rightarrow> string \<Rightarrow> Client \<times> Runtime" where
  "Unsubscribe c rt subscriptionID =
     (case subscriptions c subscriptionID of
        None \<Rightarrow> (c, rt)
      | Some sub \<Rightarrow>
          (c\<lparr>subscriptions := (subscriptions c)(subscriptionID := None)\<rparr>,
           rt\<lparr>canceled := insert (sub_cancel sub) (canceled rt)\<rparr>))"

text \<open>
  The states a client can be in: a new client, and any state reached from one by
  subscribing, unsubscribing, or a change of what the channel holds.
\<close>

inductive reachable :: "Client \<times> Runtime \<Rightarrow> bool" where
  start: "reachable (New config, \<lparr>canceled = {}, contexts = 0, goroutines = []\<rparr>)"
| subscribe: "reachable (c, rt) \<Longrightarrow> Subscribe c rt random topic options = (r, c', rt')
     \<Longrightarrow> reachable (c', rt')"
| unsubscribe: "reachable (c, rt) \<Longrightarrow> Unsubscribe c rt subscriptionID = (c', rt')
     \<Longrightarrow> reachable (c', rt')"
| deliver: "reachable (c, rt) \<Longrightarrow> reachable (c\<lparr>Messages := ms\<rparr>, rt)"

text \<open>
  Every registered subscription holds the handle of a context that exists, and no two
  registered subscriptions hold the same handle.
\<close>

definition handles_distinct :: "Client \<times> Runtime \<Rightarrow> bool" where
  "handles_distinct s =
     (case s of (c, rt) \<Rightarrow>
        (\<forall>i sub. subscriptions c i = Some sub \<longrightarrow> sub_cancel sub < contexts rt)
        \<and> (\<forall>i j sub sub'. subscriptions c i = Some sub \<and> subscriptions c j = Some sub'
              \<and> i \<noteq> j \<longrightarrow> sub_cancel sub \<noteq> sub_cancel sub'))"

text \<open>
  A client of \<^verbatim>\<open>https://ntfy.sh\<close> after two subscriptions, to the topics \<^verbatim>\<open>t1\<close> and
  \<^verbatim>\<open>t2\<close>, for which the random strings were \<^verbatim>\<open>aaaaaaaaaa\<close> and \<^verbatim>\<open>bbbbbbbbbb\<close>.
\<close>

definition fresh_client :: "Client \<times> Runtime" where
  "fresh_client =
     (New \<lparr>DefaultHost = ''https://ntfy.sh''\<rparr>, \<lparr>canceled = {}, contexts = 0, goroutines = []\<rparr>)"

definition one_subscription :: "Client \<times> Runtime" where
  "one_subscription =
     snd (Subscribe (fst fresh_client) (snd fresh_client) ''aaaaaaaaaa'' ''t1'' [])"

definition two_subscriptions :: "Client \<times> Runtime" where
  "two_subscriptions =
     snd (Subscribe (fst one_subscription) (snd one_subscription) ''bbbbbbbbbb'' ''t2'' [])"

section \<open>The reconnect loop\<close>

text \<open>
  Time is counted in nanoseconds, the unit of \<^verbatim>\<open>time.Duration\<close>; the delay of the loop is
  \<^verbatim>\<open>10 * time.Second\<close>.
\<close>

definition Second :: nat where
  "Second = 1000000000"

definition retry_delay :: nat where
  "retry_delay = 10 * Second"

text \<open>
  The \<^verbatim>\<open>select\<close> of the loop, entered at time \<open>now\<close>. The case \<^verbatim>\<open><-ctx.Done()\<close> is ready
  from the moment the context is canceled (\<open>cancel_at\<close>, if ever), the case
  \<^verbatim>\<open><-time.After(10 * time.Second)\<close> from \<open>now + retry_delay\<close>. The goroutine resumes
  \<open>lag\<close> after the first moment at which a case is ready and runs a case that is ready
  then; when both are, the runtime chooses, and \<open>choose_done\<close> is its choice. The result
  says whether the case \<^verbatim>\<open><-ctx.Done()\<close> ran, and when.
\<close>

definition select_done_or_timer :: "nat option \<Rightarrow> nat \<Rightarrow> nat \<Rightarrow> bool \<Rightarrow> bool \<times> nat" where
  "select_done_or_timer cancel_at now lag choose_done =
     (let timer_at = now + retry_delay;
          first_ready = (case cancel_at of None \<Rightarrow> timer_at | Some tc \<Rightarrow> min (max now tc) timer_at);
          resume = first_ready + lag;
          done_ready = (case cancel_at of None \<Rightarrow> False | Some tc \<Rightarrow> tc \<le> resume);
          timer_ready = (timer_at \<le> resume)
      in (done_ready \<and> (\<not> timer_ready \<or> choose_done), resume))"

text \<open>
  One entry for each iteration of the loop: how the library behaves during the attempt, how
  long the attempt takes, and the two inputs of the \<^verbatim>\<open>select\<close> that follows it.
\<close>

record Round =
  round_env :: Env
  attempt_ns :: nat
  lag_ns :: nat
  prefer_done :: bool

datatype log_entry = Warn string error | Info string

datatype loop_event = AttemptStarted nat | AttemptEnded nat | LoopExited nat

datatype loop_status = Running | Exited | Crashed

text \<open>\<^verbatim>\<open>log.Warn\<close> is called exactly when the attempt returned an error.\<close>

definition connection_failed :: "string \<Rightarrow> error option \<Rightarrow> log_entry list" where
  "connection_failed topicURL err = (case err of None \<Rightarrow> [] | Some e \<Rightarrow> [Warn topicURL e])"

text \<open>
  \<^verbatim>\<open>handleSubscribeConnLoop\<close>, run for as many iterations as there are rounds, starting at
  time \<open>now\<close>. The result is the status of the goroutine (\<open>Running\<close>: still in the loop
  when the rounds are used up; \<open>Exited\<close>: returned; \<open>Crashed\<close>: an attempt panicked),
  the channel, the log entries written, and the attempts with their times.
\<close>

fun handleSubscribeConnLoop ::
  "Round list \<Rightarrow> nat option \<Rightarrow> nat \<Rightarrow> Message list \<Rightarrow> string \<Rightarrow> string \<Rightarrow> RequestOption list
     \<Rightarrow> loop_status \<times> Message list \<times> log_entry list \<times> loop_event list" where
  "handleSubscribeConnLoop [] cancel_at now msgChan topicURL subcriptionID options =
     (Running, msgChan, [], [])"
| "handleSubscribeConnLoop (r # rounds) cancel_at now msgChan topicURL subcriptionID options =
     (case performSubscribeRequest (round_env r) msgChan topicURL subcriptionID options of
        (Panics, msgChan', reqs) \<Rightarrow> (Crashed, msgChan', [], [AttemptStarted now])
      | (Returns err, msgChan', reqs) \<Rightarrow>
          (case select_done_or_timer cancel_at (now + attempt_ns r) (lag_ns r) (prefer_done r) of
             (True, t) \<Rightarrow>
               (Exited, msgChan', connection_failed topicURL err @ [Info topicURL],
                [AttemptStarted now, AttemptEnded (now + attempt_ns r), LoopExited t])
           | (False, t) \<Rightarrow>
               (case handleSubscribeConnLoop rounds cancel_at t msgChan' topicURL subcriptionID
                       options of
                  (status, msgChan'', logged, events) \<Rightarrow>
                    (status, msgChan'', connection_failed topicURL err @ logged,
                     AttemptStarted now # AttemptEnded (now + attempt_ns r) # events))))"

text \<open>
  Every attempt but the first in a list of events comes directly after the end of an
  attempt, and starts no earlier than the retry delay after that end.
\<close>

fun delayed_starts :: "loop_event list \<Rightarrow> bool" where
  "delayed_starts (a # b # events) =
     ((case b of
         AttemptStarted s \<Rightarrow> (case a of AttemptEnded e \<Rightarrow> e + retry_delay \<le> s | _ \<Rightarrow> False)
       | _ \<Rightarrow> True)
      \<and> delayed_starts (b # events))"
| "delayed_starts events = True"

definition is_start :: "loop_event \<Rightarrow> bool" where
  "is_start ev = (case ev of AttemptStarted s \<Rightarrow> True | _ \<Rightarrow> False)"

definition attempts :: "loop_event list \<Rightarrow> nat" where
  "attempts events = length (filter is_start events)"

text \<open>No attempt of these rounds panics, whatever the channel holds.\<close>

definition never_panics :: "Round list \<Rightarrow> string \<Rightarrow> string \<Rightarrow> RequestOption list \<Rightarrow> bool" where
  "never_panics rounds topicURL subcriptionID options =
     (\<forall>r \<in> set rounds. \<forall>msgChan.
        fst (performSubscribeRequest (round_env r) msgChan topicURL subcriptionID options) \<noteq> Panics)"

definition timing :: "Round \<Rightarrow> nat \<times> nat \<times> bool" where
  "timing r = (attempt_ns r, lag_ns r, prefer_done r)"

text \<open>
  Sample rounds of one second each: an attempt that ends in a decode error after one
  message, one that is refused with status 429, and one whose stream ends normally.
\<close>

definition round_of :: "Env \<Rightarrow> Round" where
  "round_of env = \<lparr>round_env = env, attempt_ns = Second, lag_ns = 0, prefer_done = False\<rparr>"

definition round_decode_error :: Round where
  "round_decode_error = round_of (sample_env ok_stream [line_hi, line_bad, line_hi] None)"

definition round_refused :: Round where
  "round_refused = round_of (sample_env quota_response [] None)"

definition round_closed :: Round where
  "round_closed = round_of (sample_env ok_stream [line_open, line_hi] None)"

section \<open>Properties of the decoder\<close>

lemma toMessage_cases:
  "toMessage env s topicURL subscriptionID =
     (case json_Decode env s of
        Inl err \<Rightarrow> Returns (Inl err)
      | Inr None \<Rightarrow> Panics
      | Inr (Some m) \<Rightarrow>
          Returns (Inr (m\<lparr>TopicURL := topicURL, SubscriptionID := subscriptionID, Raw := s\<rparr>)))"
  by (simp add: toMessage_def)

lemma toMessage_stamps:
  assumes "toMessage env s topicURL subscriptionID = Returns (Inr m)"
  shows "TopicURL m = topicURL \<and> SubscriptionID m = subscriptionID \<and> Raw m = s"
  using assms by (auto simp: toMessage_def split: sum.splits option.splits)

text \<open>The decoder panics exactly when the JSON decoder reports no error and leaves \<^verbatim>\<open>nil\<close>.\<close>

lemma toMessage_panics_iff:
  "toMessage env s topicURL subscriptionID = Panics \<longleftrightarrow> json_Decode env s = Inr None"
  by (simp add: toMessage_def split: sum.splits option.splits)

lemma toMessage_decodes:
  "decodes env s \<longleftrightarrow> (\<exists>m. toMessage env s topicURL subscriptionID = Returns (Inr m))"
  by (auto simp: toMessage_def decodes_def split: sum.splits option.splits)

text \<open>
  C9. The claim is that the decoder never crashes: it fails with a decode error or returns
  a stamped message. On the line \<^verbatim>\<open>null\<close> the JSON decoder reports no error and leaves the
  pointer \<^verbatim>\<open>nil\<close>; the assignment \<^verbatim>\<open>m.TopicURL = topicURL\<close> then dereferences it, and
  \<^verbatim>\<open>toMessage\<close> panics instead of returning.
\<close>

theorem toMessage_null_panics:
  "toMessage (sample_env ok_stream [] None) ''null'' ''https://ntfy.sh/t'' ''abc'' = Panics"
  by (simp add: toMessage_def sample_env_def sample_Decode_def line_null_def line_open_def
      line_keepalive_def line_hi_def)

text \<open>
  C3. Topic URL resolution applies its four rules in order: a topic that begins with
  \<^verbatim>\<open>http://\<close> or \<^verbatim>\<open>https://\<close> is returned unchanged; otherwise one containing a slash
  is prefixed with \<^verbatim>\<open>https://\<close>; otherwise one of 1 to 64 letters, digits, hyphens and
  underscores is appended to the default host after a slash; any other topic fails with the
  "invalid topic name" error. The result is a function of the topic and the default host only.
\<close>

theorem expandTopicURL_rules:
  "expandTopicURL config topic =
     (if take 7 topic = ''http://'' \<or> take 8 topic = ''https://'' then Inr topic
      else if CHR ''/'' \<in> set topic then Inr (''https://'' @ topic)
      else if 1 \<le> length topic \<and> length topic \<le> 64 \<and> (\<forall>c \<in> set topic. topic_char c)
        then Inr (DefaultHost config @ ''/'' @ topic)
      else Inl (ErrorString (''invalid topic name: '' @ topic)))"
proof -
  have p7: "HasPrefix topic ''http://'' = (take 7 topic = ''http://'')"
    by (simp add: HasPrefix_def eval_nat_numeral)
  have p8: "HasPrefix topic ''https://'' = (take 8 topic = ''https://'')"
    by (simp add: HasPrefix_def eval_nat_numeral)
  show ?thesis
    unfolding expandTopicURL_def p7 p8
    by (simp add: Contains_slash_def topicRegex_MatchString_def list_all_iff)
qed

text \<open>The four resolutions of the specification's examples, with the default host \<^verbatim>\<open>https://ntfy.sh\<close>.\<close>

theorem expandTopicURL_rules_witness:
  "expandTopicURL \<lparr>DefaultHost = ''https://ntfy.sh''\<rparr> ''mytopic'' = Inr ''https://ntfy.sh/mytopic''
   \<and> expandTopicURL \<lparr>DefaultHost = ''https://ntfy.sh''\<rparr> ''myhost.lan/mytopic''
       = Inr ''https://myhost.lan/mytopic''
   \<and> expandTopicURL \<lparr>DefaultHost = ''https://ntfy.sh''\<rparr> ''https://x.example/y''
       = Inr ''https://x.example/y''
   \<and> expandTopicURL \<lparr>DefaultHost = ''https://ntfy.sh''\<rparr> ''bad topic!''
       = Inl (ErrorString ''invalid topic name: bad topic!'')"
  using expandTopicURL_rules [of "\<lparr>DefaultHost = ''https://ntfy.sh''\<rparr>" "''mytopic''"]
    expandTopicURL_rules [of "\<lparr>DefaultHost = ''https://ntfy.sh''\<rparr>" "''myhost.lan/mytopic''"]
    expandTopicURL_rules [of "\<lparr>DefaultHost = ''https://ntfy.sh''\<rparr>" "''https://x.example/y''"]
    expandTopicURL_rules [of "\<lparr>DefaultHost = ''https://ntfy.sh''\<rparr>" "''bad topic!''"]
  by (simp add: topic_char_def)

section \<open>Properties of the stream engine\<close>

lemma read_lines_channel:
  "fst (snd (read_lines env topicURL sid ls msgChan)) =
     msgChan @ filter is_message_event (decoded_lines env topicURL sid ls)"
  by (induction ls arbitrary: msgChan)
     (auto simp: is_message_event_def MessageEvent_def split: go.splits sum.splits)

lemma read_lines_prefix:
  "list_all (decodes env) pre \<Longrightarrow>
   read_lines env topicURL sid (pre @ rest) msgChan =
     read_lines env topicURL sid rest
       (msgChan @ filter is_message_event (decoded_lines env topicURL sid pre))"
  by (induction pre arbitrary: msgChan)
     (auto simp: decodes_def toMessage_def is_message_event_def MessageEvent_def
           split: sum.splits option.splits)

lemma read_lines_all:
  "list_all (decodes env) ls \<Longrightarrow>
   read_lines env topicURL sid ls msgChan =
     (Returns None, msgChan @ filter is_message_event (decoded_lines env topicURL sid ls), [])"
  using read_lines_prefix [of env ls topicURL sid "[]" msgChan] by simp

lemma read_lines_error:
  assumes "list_all (decodes env) pre" and "json_Decode env bad = Inl err"
  shows "read_lines env topicURL sid (pre @ bad # post) msgChan =
     (Returns (Some err),
      msgChan @ filter is_message_event (decoded_lines env topicURL sid pre), post)"
  using assms by (simp add: read_lines_prefix toMessage_def)

lemma decoded_lines_stamped:
  "m \<in> set (decoded_lines env topicURL sid ls) \<Longrightarrow>
   TopicURL m = topicURL \<and> SubscriptionID m = sid \<and> Raw m \<in> set ls"
proof (induction ls)
  case Nil
  then show ?case by simp
next
  case (Cons s rest)
  show ?case
  proof (cases "toMessage env s topicURL sid")
    case Panics
    with Cons.prems show ?thesis by simp
  next
    case (Returns r)
    show ?thesis
    proof (cases r)
      case (Inl err)
      with Returns Cons.prems show ?thesis by simp
    next
      case (Inr m')
      with Returns have stamped: "TopicURL m' = topicURL \<and> SubscriptionID m' = sid \<and> Raw m' = s"
        using toMessage_stamps by blast
      from Inr Returns Cons.prems have "m = m' \<or> m \<in> set (decoded_lines env topicURL sid rest)"
        by simp
      with stamped Cons.IH show ?thesis by auto
    qed
  qed
qed

lemma performSubscribeRequest_stream:
  assumes "http_NewRequest env ''GET'' (topicURL @ ''/json'') [] = Inr req0"
    and "apply_options options req0 = Inr req"
    and "http_Do env req = Inr resp"
    and "StatusCode resp = 200"
  shows "performSubscribeRequest env msgChan topicURL sid options =
     (case read_lines env topicURL sid (tokens (bufio_NewScanner env (Body resp))) msgChan of
        (r, msgChan', unread) \<Rightarrow> (r, msgChan', [req]))"
  using assms by (simp add: performSubscribeRequest_def StatusOK_def)

text \<open>
  C1. On a request answered with status 200, the messages sent on the channel are exactly
  the decoded lines of the stream whose event is \<^verbatim>\<open>message\<close>, in the order of the stream;
  decoded lines of any other event are not sent. (The decoded lines are those read before
  the attempt ends.)
\<close>

theorem performSubscribeRequest_forwards_messages:
  assumes "http_NewRequest env ''GET'' (topicURL @ ''/json'') [] = Inr req0"
    and "apply_options options req0 = Inr req"
    and "http_Do env req = Inr resp"
    and "StatusCode resp = 200"
  shows "fst (snd (performSubscribeRequest env msgChan topicURL sid options)) =
     msgChan @ filter (\<lambda>m. Event m = ''message'')
       (decoded_lines env topicURL sid (tokens (bufio_NewScanner env (Body resp))))"
proof -
  have "fst (snd (performSubscribeRequest env msgChan topicURL sid options)) =
      fst (snd (read_lines env topicURL sid (tokens (bufio_NewScanner env (Body resp))) msgChan))"
    unfolding performSubscribeRequest_stream [OF assms] by (simp split: prod.splits)
  also have "\<dots> = msgChan @ filter is_message_event
       (decoded_lines env topicURL sid (tokens (bufio_NewScanner env (Body resp))))"
    by (rule read_lines_channel)
  finally show ?thesis
    by (simp add: is_message_event_def [abs_def])
qed

lemmas sample_defs = sample_env_def sample_Decode_def ok_stream_def line_open_def
  line_keepalive_def line_hi_def line_null_def line_bad_def zero_Message_def

theorem performSubscribeRequest_forwards_messages_witness:
  "StatusCode ok_stream = 200
   \<and> fst (snd (performSubscribeRequest
         (sample_env ok_stream [line_open, line_keepalive, line_hi] None)
         [] ''https://ntfy.sh/t'' ''sub1'' [])) =
       [zero_Message\<lparr>ID := ''1'', Event := ''message'', Topic := ''t'', Message := ''hi'',
          TopicURL := ''https://ntfy.sh/t'', SubscriptionID := ''sub1'', Raw := line_hi\<rparr>]"
proof -
  let ?env = "sample_env ok_stream [line_open, line_keepalive, line_hi] None"
  let ?req = "\<lparr>Method = ''GET'', RequestURL = ''https://ntfy.sh/t/json'', Header = [],
     RequestBody = []\<rparr>"
  have h1: "http_NewRequest ?env ''GET'' (''https://ntfy.sh/t'' @ ''/json'') [] = Inr ?req"
    by (simp add: sample_env_def)
  have h2: "apply_options [] ?req = Inr ?req" by simp
  have h3: "http_Do ?env ?req = Inr ok_stream" by (simp add: sample_env_def)
  have h4: "StatusCode ok_stream = 200" by (simp add: ok_stream_def)
  show ?thesis
    using h4 performSubscribeRequest_forwards_messages [OF h1 h2 h3 h4, of "[]" "''sub1''"]
    by (simp add: sample_defs toMessage_def)
qed

text \<open>
  C4. When a line of the stream fails to decode, the attempt returns the decoder's error
  at once: the lines after it stay unread in the scanner, and the channel holds the messages
  of the lines before it and nothing more.
\<close>

theorem performSubscribeRequest_aborts_on_decode_error:
  assumes "http_NewRequest env ''GET'' (topicURL @ ''/json'') [] = Inr req0"
    and "apply_options options req0 = Inr req"
    and "http_Do env req = Inr resp"
    and "StatusCode resp = 200"
    and "tokens (bufio_NewScanner env (Body resp)) = pre @ bad # post"
    and "list_all (decodes env) pre"
    and "json_Decode env bad = Inl err"
  shows "performSubscribeRequest env msgChan topicURL sid options =
       (Returns (Some err),
        msgChan @ filter is_message_event (decoded_lines env topicURL sid pre), [req])
     \<and> read_lines env topicURL sid (pre @ bad # post) msgChan =
       (Returns (Some err),
        msgChan @ filter is_message_event (decoded_lines env topicURL sid pre), post)"
proof -
  have loop: "read_lines env topicURL sid (pre @ bad # post) msgChan =
       (Returns (Some err),
        msgChan @ filter is_message_event (decoded_lines env topicURL sid pre), post)"
    using assms(6,7) by (rule read_lines_error)
  have "performSubscribeRequest env msgChan topicURL sid options =
       (Returns (Some err),
        msgChan @ filter is_message_event (decoded_lines env topicURL sid pre), [req])"
    unfolding performSubscribeRequest_stream [OF assms(1-4)] assms(5) loop by simp
  with loop show ?thesis by simp
qed

theorem performSubscribeRequest_aborts_on_decode_error_witness:
  "StatusCode ok_stream = 200
   \<and> list_all (decodes (sample_env ok_stream [line_hi, line_bad, line_hi] None)) [line_hi]
   \<and> json_Decode (sample_env ok_stream [line_hi, line_bad, line_hi] None) line_bad
       = Inl (ErrorString ''invalid character'')
   \<and> performSubscribeRequest (sample_env ok_stream [line_hi, line_bad, line_hi] None)
         [] ''https://ntfy.sh/t'' ''sub1'' [] =
       (Returns (Some (ErrorString ''invalid character'')),
        [zero_Message\<lparr>ID := ''1'', Event := ''message'', Topic := ''t'', Message := ''hi'',
          TopicURL := ''https://ntfy.sh/t'', SubscriptionID := ''sub1'', Raw := line_hi\<rparr>],
        [\<lparr>Method = ''GET'', RequestURL = ''https://ntfy.sh/t/json'', Header = [],
          RequestBody = []\<rparr>])
   \<and> read_lines (sample_env ok_stream [line_hi, line_bad, line_hi] None)
         ''https://ntfy.sh/t'' ''sub1'' [line_hi, line_bad, line_hi] [] =
       (Returns (Some (ErrorString ''invalid character'')),
        [zero_Message\<lparr>ID := ''1'', Event := ''message'', Topic := ''t'', Message := ''hi'',
          TopicURL := ''https://ntfy.sh/t'', SubscriptionID := ''sub1'', Raw := line_hi\<rparr>],
        [line_hi])"
proof -
  let ?env = "sample_env ok_stream [line_hi, line_bad, line_hi] None"
  let ?req = "\<lparr>Method = ''GET'', RequestURL = ''https://ntfy.sh/t/json'', Header = [],
     RequestBody = []\<rparr>"
  have h1: "http_NewRequest ?env ''GET'' (''https://ntfy.sh/t'' @ ''/json'') [] = Inr ?req"
    by (simp add: sample_env_def)
  have h2: "apply_options [] ?req = Inr ?req" by simp
  have h3: "http_Do ?env ?req = Inr ok_stream" by (simp add: sample_env_def)
  have h4: "StatusCode ok_stream = 200" by (simp add: ok_stream_def)
  have h5: "tokens (bufio_NewScanner ?env (Body ok_stream)) = [line_hi] @ line_bad # [line_hi]"
    by (simp add: sample_env_def)
  have h6: "list_all (decodes ?env) [line_hi]"
    by (simp add: decodes_def sample_defs)
  have h7: "json_Decode ?env line_bad = Inl (ErrorString ''invalid character'')"
    by (simp add: sample_defs)
  show ?thesis
    using h4 h6 h7
      performSubscribeRequest_aborts_on_decode_error [OF h1 h2 h3 h4 h5 h6 h7, of "[]" "''sub1''"]
    by (simp add: sample_defs toMessage_def is_message_event_def)
qed

text \<open>
  C10. On a request answered with status 200, when every line the scanner hands out
  decodes, the attempt returns \<^verbatim>\<open>nil\<close> once the scanner stops, whatever error the scanner
  stopped with and whatever error ended the body: \<^verbatim>\<open>scanner.Err()\<close> is never looked at,
  so a stream cut by a failed read ends like one the server closed.
\<close>

theorem performSubscribeRequest_ignores_scanner_error:
  assumes "http_NewRequest env ''GET'' (topicURL @ ''/json'') [] = Inr req0"
    and "apply_options options req0 = Inr req"
    and "http_Do env req = Inr resp"
    and "StatusCode resp = 200"
    and "bufio_NewScanner env (Body resp) = \<lparr>tokens = ls, scan_err = serr\<rparr>"
    and "list_all (decodes env) ls"
  shows "performSubscribeRequest env msgChan topicURL sid options =
       (Returns None,
        msgChan @ filter is_message_event (decoded_lines env topicURL sid ls), [req])"
  unfolding performSubscribeRequest_stream [OF assms(1-4)] assms(5)
  by (simp add: read_lines_all [OF assms(6)])

theorem performSubscribeRequest_ignores_scanner_error_witness:
  "StatusCode cut_stream = 200
   \<and> read_err (Body cut_stream) = Some (ErrorString ''unexpected EOF'')
   \<and> list_all (decodes (sample_env cut_stream [line_open, line_hi]
         (Some (ErrorString ''unexpected EOF'')))) [line_open, line_hi]
   \<and> performSubscribeRequest
         (sample_env cut_stream [line_open, line_hi] (Some (ErrorString ''unexpected EOF'')))
         [] ''https://ntfy.sh/t'' ''sub1'' [] =
       (Returns None,
        [zero_Message\<lparr>ID := ''1'', Event := ''message'', Topic := ''t'', Message := ''hi'',
          TopicURL := ''https://ntfy.sh/t'', SubscriptionID := ''sub1'', Raw := line_hi\<rparr>],
        [\<lparr>Method = ''GET'', RequestURL = ''https://ntfy.sh/t/json'', Header = [],
          RequestBody = []\<rparr>])"
proof -
  let ?env = "sample_env cut_stream [line_open, line_hi] (Some (ErrorString ''unexpected EOF''))"
  let ?req = "\<lparr>Method = ''GET'', RequestURL = ''https://ntfy.sh/t/json'', Header = [],
     RequestBody = []\<rparr>"
  have h1: "http_NewRequest ?env ''GET'' (''https://ntfy.sh/t'' @ ''/json'') [] = Inr ?req"
    by (simp add: sample_env_def)
  have h2: "apply_options [] ?req = Inr ?req" by simp
  have h3: "http_Do ?env ?req = Inr cut_stream" by (simp add: sample_env_def)
  have h4: "StatusCode cut_stream = 200" by (simp add: cut_stream_def)
  have h5: "bufio_NewScanner ?env (Body cut_stream) =
      \<lparr>tokens = [line_open, line_hi], scan_err = Some (ErrorString ''unexpected EOF'')\<rparr>"
    by (simp add: sample_env_def)
  have h6: "list_all (decodes ?env) [line_open, line_hi]"
    by (simp add: decodes_def sample_defs)
  show ?thesis
    using h4 h6
      performSubscribeRequest_ignores_scanner_error [OF h1 h2 h3 h4 h5 h6, of "[]" "''sub1''"]
    by (simp add: sample_defs cut_stream_def toMessage_def is_message_event_def)
qed

section \<open>Properties of publishing\<close>




section \<open>Properties of request options\<close>

lemma apply_options_append:
  "apply_options (pre @ post) req0 =
     (case apply_options pre req0 of Inl err \<Rightarrow> Inl err | Inr req \<Rightarrow> apply_options post req)"
  by (induction pre arbitrary: req0) (auto split: sum.splits)

text \<open>
  C6. Options are applied one after the other, each to the request its predecessors left.
  When an option fails, a publish call and a subscribe or poll attempt return that option's
  error and have handed no request to the HTTP client; the options after the failing one
  play no part in the outcome.
\<close>

theorem option_failure_aborts_before_io:
  "(apply_options pre req = Inr req' \<and> opt req' = Inl err \<longrightarrow>
      apply_options (pre @ opt # post) req = Inl err)
   \<and> (expandTopicURL config topic = Inr topicURL
        \<and> http_NewRequest env ''POST'' topicURL body = Inr req
        \<and> apply_options pre req = Inr req' \<and> opt req' = Inl err \<longrightarrow>
      PublishReader env config topic body (pre @ opt # post) = (Returns (Inl err), []))
   \<and> (http_NewRequest env ''GET'' (topicURL @ ''/json'') [] = Inr req
        \<and> apply_options pre req = Inr req' \<and> opt req' = Inl err \<longrightarrow>
      performSubscribeRequest env msgChan topicURL sid (pre @ opt # post)
        = (Returns (Some err), msgChan, []))"
proof -
  have fails: "apply_options (pre @ opt # post) req = Inl err"
    if "apply_options pre req = Inr req'" and "opt req' = Inl err"
    using that by (simp add: apply_options_append)
  then show ?thesis
    by (auto simp: PublishReader_def performSubscribeRequest_def)
qed

theorem option_failure_aborts_before_io_witness:
  "apply_options [with_title]
       \<lparr>Method = ''GET'', RequestURL = ''https://ntfy.sh/t/json'', Header = [], RequestBody = []\<rparr>
     = Inr \<lparr>Method = ''GET'', RequestURL = ''https://ntfy.sh/t/json'',
         Header = [(''X-Title'', ''hello'')], RequestBody = []\<rparr>
   \<and> with_failure \<lparr>Method = ''GET'', RequestURL = ''https://ntfy.sh/t/json'',
         Header = [(''X-Title'', ''hello'')], RequestBody = []\<rparr>
     = Inl (ErrorString ''invalid since'')
   \<and> apply_options [with_title, with_failure, with_poll]
       \<lparr>Method = ''GET'', RequestURL = ''https://ntfy.sh/t/json'', Header = [], RequestBody = []\<rparr>
     = Inl (ErrorString ''invalid since'')
   \<and> performSubscribeRequest (sample_env ok_stream [line_hi] None) [] ''https://ntfy.sh/t'' ''sub1''
       [with_title, with_failure, with_poll]
     = (Returns (Some (ErrorString ''invalid since'')), [], [])
   \<and> PublishReader (sample_env hi_response [] None) \<lparr>DefaultHost = ''https://ntfy.sh''\<rparr>
       ''mytopic'' ''hello'' [with_title, with_failure, with_poll]
     = (Returns (Inl (ErrorString ''invalid since'')), [])"
proof -
  let ?req = "\<lparr>Method = ''GET'', RequestURL = ''https://ntfy.sh/t/json'', Header = [],
     RequestBody = []\<rparr>"
  let ?req' = "\<lparr>Method = ''GET'', RequestURL = ''https://ntfy.sh/t/json'',
     Header = [(''X-Title'', ''hello'')], RequestBody = []\<rparr>"
  let ?preq = "\<lparr>Method = ''POST'', RequestURL = ''https://ntfy.sh/mytopic'', Header = [],
     RequestBody = ''hello''\<rparr>"
  let ?preq' = "\<lparr>Method = ''POST'', RequestURL = ''https://ntfy.sh/mytopic'',
     Header = [(''X-Title'', ''hello'')], RequestBody = ''hello''\<rparr>"
  let ?config = "\<lparr>DefaultHost = ''https://ntfy.sh''\<rparr>"
  have h1: "apply_options [with_title] ?req = Inr ?req'"
    by (simp add: with_title_def)
  have h2: "with_failure ?req' = Inl (ErrorString ''invalid since'')"
    by (simp add: with_failure_def)
  have h3: "http_NewRequest (sample_env ok_stream [line_hi] None) ''GET''
      (''https://ntfy.sh/t'' @ ''/json'') [] = Inr ?req"
    by (simp add: sample_env_def)
  have p0: "expandTopicURL ?config ''mytopic'' = Inr ''https://ntfy.sh/mytopic''"
    by (simp add: expandTopicURL_def HasPrefix_def Contains_slash_def
        topicRegex_MatchString_def topic_char_def)
  have p1: "apply_options [with_title] ?preq = Inr ?preq'"
    by (simp add: with_title_def)
  have p2: "with_failure ?preq' = Inl (ErrorString ''invalid since'')"
    by (simp add: with_failure_def)
  have p3: "http_NewRequest (sample_env hi_response [] None) ''POST''
      ''https://ntfy.sh/mytopic'' ''hello'' = Inr ?preq"
    by (simp add: sample_env_def)
  have sub: "apply_options ([with_title] @ with_failure # [with_poll]) ?req
       = Inl (ErrorString ''invalid since'')
     \<and> performSubscribeRequest (sample_env ok_stream [line_hi] None) [] ''https://ntfy.sh/t''
         ''sub1'' ([with_title] @ with_failure # [with_poll])
       = (Returns (Some (ErrorString ''invalid since'')), [], [])"
    using h1 h2 h3
      option_failure_aborts_before_io [where pre = "[with_title]" and opt = with_failure
        and post = "[with_poll]" and req = ?req and req' = ?req'
        and err = "ErrorString ''invalid since''"
        and topicURL = "''https://ntfy.sh/t''" and env = "sample_env ok_stream [line_hi] None"
        and msgChan = "[]" and sid = "''sub1''"]
    by blast
  have pub: "PublishReader (sample_env hi_response [] None) ?config ''mytopic'' ''hello''
         ([with_title] @ with_failure # [with_poll])
       = (Returns (Inl (ErrorString ''invalid since'')), [])"
    using p0 p1 p2 p3
      option_failure_aborts_before_io [where pre = "[with_title]" and opt = with_failure
        and post = "[with_poll]" and req = ?preq and req' = ?preq'
        and err = "ErrorString ''invalid since''" and config = ?config
        and topic = "''mytopic''" and body = "''hello''"
        and topicURL = "''https://ntfy.sh/mytopic''" and env = "sample_env hi_response [] None"]
    by blast
  from h1 h2 sub pub show ?thesis by simp
qed
section \<open>Properties of polling\<close>

text \<open>
  C5. \<^verbatim>\<open>Poll\<close> puts the poll option after the supplied options, runs one stream attempt
  on an empty channel, and returns the messages that attempt sent, in order, together with
  the attempt's error. When the stream is answered with status 200 and every line decodes,
  the call returns the messages among the decoded lines and no error; when a line fails to
  decode, it returns the messages of the lines before it together with the decoder's error.
\<close>

theorem Poll_collects_in_order:
  assumes "expandTopicURL config topic = Inr topicURL"
  shows "(\<forall>err messages reqs.
        performSubscribeRequest env [] topicURL [] (options @ [WithPoll])
          = (Returns err, messages, reqs) \<longrightarrow>
        Poll env config WithPoll topic options = (Returns (messages, err), reqs))
     \<and> (\<forall>req0 req resp ls.
        http_NewRequest env ''GET'' (topicURL @ ''/json'') [] = Inr req0
        \<and> apply_options (options @ [WithPoll]) req0 = Inr req
        \<and> http_Do env req = Inr resp \<and> StatusCode resp = 200
        \<and> tokens (bufio_NewScanner env (Body resp)) = ls \<and> list_all (decodes env) ls \<longrightarrow>
        Poll env config WithPoll topic options
          = (Returns (filter is_message_event (decoded_lines env topicURL [] ls), None), [req]))
     \<and> (\<forall>req0 req resp pre bad post err.
        http_NewRequest env ''GET'' (topicURL @ ''/json'') [] = Inr req0
        \<and> apply_options (options @ [WithPoll]) req0 = Inr req
        \<and> http_Do env req = Inr resp \<and> StatusCode resp = 200
        \<and> tokens (bufio_NewScanner env (Body resp)) = pre @ bad # post
        \<and> list_all (decodes env) pre \<and> json_Decode env bad = Inl err \<longrightarrow>
        Poll env config WithPoll topic options
          = (Returns (filter is_message_event (decoded_lines env topicURL [] pre), Some err),
             [req]))"
proof (intro conjI allI impI)
  fix err messages reqs
  assume "performSubscribeRequest env [] topicURL [] (options @ [WithPoll])
      = (Returns err, messages, reqs)"
  with assms show "Poll env config WithPoll topic options = (Returns (messages, err), reqs)"
    by (simp add: Poll_def)
next
  fix req0 req resp ls
  assume h: "http_NewRequest env ''GET'' (topicURL @ ''/json'') [] = Inr req0
        \<and> apply_options (options @ [WithPoll]) req0 = Inr req
        \<and> http_Do env req = Inr resp \<and> StatusCode resp = 200
        \<and> tokens (bufio_NewScanner env (Body resp)) = ls \<and> list_all (decodes env) ls"
  then have "performSubscribeRequest env [] topicURL [] (options @ [WithPoll]) =
      (Returns None, filter is_message_event (decoded_lines env topicURL [] ls), [req])"
    using performSubscribeRequest_stream [of env topicURL req0 "options @ [WithPoll]" req resp "[]" "[]"]
    by (simp add: read_lines_all)
  with assms show "Poll env config WithPoll topic options
      = (Returns (filter is_message_event (decoded_lines env topicURL [] ls), None), [req])"
    by (simp add: Poll_def)
next
  fix req0 req resp pre bad post err
  assume h: "http_NewRequest env ''GET'' (topicURL @ ''/json'') [] = Inr req0
        \<and> apply_options (options @ [WithPoll]) req0 = Inr req
        \<and> http_Do env req = Inr resp \<and> StatusCode resp = 200
        \<and> tokens (bufio_NewScanner env (Body resp)) = pre @ bad # post
        \<and> list_all (decodes env) pre \<and> json_Decode env bad = Inl err"
  then have "performSubscribeRequest env [] topicURL [] (options @ [WithPoll]) =
      (Returns (Some err), filter is_message_event (decoded_lines env topicURL [] pre), [req])"
    using performSubscribeRequest_stream [of env topicURL req0 "options @ [WithPoll]" req resp "[]" "[]"]
    by (simp add: read_lines_error)
  with assms show "Poll env config WithPoll topic options
      = (Returns (filter is_message_event (decoded_lines env topicURL [] pre), Some err), [req])"
    by (simp add: Poll_def)
qed

theorem Poll_collects_in_order_witness:
  "expandTopicURL \<lparr>DefaultHost = ''https://ntfy.sh''\<rparr> ''t'' = Inr ''https://ntfy.sh/t''
   \<and> list_all (decodes (sample_env ok_stream [line_open, line_hi, line_keepalive, line_hi] None))
        [line_open, line_hi, line_keepalive, line_hi]
   \<and> Poll (sample_env ok_stream [line_open, line_hi, line_keepalive, line_hi] None)
        \<lparr>DefaultHost = ''https://ntfy.sh''\<rparr> with_poll ''t'' [with_title]
      = (Returns
          ([zero_Message\<lparr>ID := ''1'', Event := ''message'', Topic := ''t'', Message := ''hi'',
              TopicURL := ''https://ntfy.sh/t'', SubscriptionID := [], Raw := line_hi\<rparr>,
            zero_Message\<lparr>ID := ''1'', Event := ''message'', Topic := ''t'', Message := ''hi'',
              TopicURL := ''https://ntfy.sh/t'', SubscriptionID := [], Raw := line_hi\<rparr>],
           None),
         [\<lparr>Method = ''GET'', RequestURL = ''https://ntfy.sh/t/json?poll=1'',
           Header = [(''X-Title'', ''hello'')], RequestBody = []\<rparr>])
   \<and> json_Decode (sample_env ok_stream [line_hi, line_bad, line_hi] None) line_bad
      = Inl (ErrorString ''invalid character'')
   \<and> Poll (sample_env ok_stream [line_hi, line_bad, line_hi] None)
        \<lparr>DefaultHost = ''https://ntfy.sh''\<rparr> with_poll ''t'' [with_title]
      = (Returns
          ([zero_Message\<lparr>ID := ''1'', Event := ''message'', Topic := ''t'', Message := ''hi'',
              TopicURL := ''https://ntfy.sh/t'', SubscriptionID := [], Raw := line_hi\<rparr>],
           Some (ErrorString ''invalid character'')),
         [\<lparr>Method = ''GET'', RequestURL = ''https://ntfy.sh/t/json?poll=1'',
           Header = [(''X-Title'', ''hello'')], RequestBody = []\<rparr>])"
proof -
  let ?config = "\<lparr>DefaultHost = ''https://ntfy.sh''\<rparr>"
  let ?good = "[line_open, line_hi, line_keepalive, line_hi]"
  let ?envg = "sample_env ok_stream ?good None"
  let ?envb = "sample_env ok_stream [line_hi, line_bad, line_hi] None"
  let ?start = "\<lparr>Method = ''GET'', RequestURL = ''https://ntfy.sh/t/json'', Header = [],
     RequestBody = []\<rparr>"
  let ?req = "\<lparr>Method = ''GET'', RequestURL = ''https://ntfy.sh/t/json?poll=1'',
     Header = [(''X-Title'', ''hello'')], RequestBody = []\<rparr>"
  have u: "expandTopicURL ?config ''t'' = Inr ''https://ntfy.sh/t''"
    by (simp add: expandTopicURL_def HasPrefix_def Contains_slash_def
        topicRegex_MatchString_def topic_char_def)
  have opts: "apply_options ([with_title] @ [with_poll]) ?start = Inr ?req"
    by (simp add: with_title_def with_poll_def)
  have g1: "http_NewRequest ?envg ''GET'' (''https://ntfy.sh/t'' @ ''/json'') [] = Inr ?start"
    by (simp add: sample_env_def)
  have g3: "http_Do ?envg ?req = Inr ok_stream" by (simp add: sample_env_def)
  have g4: "StatusCode ok_stream = 200" by (simp add: ok_stream_def)
  have g5: "tokens (bufio_NewScanner ?envg (Body ok_stream)) = ?good"
    by (simp add: sample_env_def)
  have g6: "list_all (decodes ?envg) ?good"
    by (simp add: decodes_def sample_defs)
  have b1: "http_NewRequest ?envb ''GET'' (''https://ntfy.sh/t'' @ ''/json'') [] = Inr ?start"
    by (simp add: sample_env_def)
  have b3: "http_Do ?envb ?req = Inr ok_stream" by (simp add: sample_env_def)
  have b5: "tokens (bufio_NewScanner ?envb (Body ok_stream)) = [line_hi] @ line_bad # [line_hi]"
    by (simp add: sample_env_def)
  have b6: "list_all (decodes ?envb) [line_hi]"
    by (simp add: decodes_def sample_defs)
  have b7: "json_Decode ?envb line_bad = Inl (ErrorString ''invalid character'')"
    by (simp add: sample_defs)
  have good: "Poll ?envg ?config with_poll ''t'' [with_title]
      = (Returns (filter is_message_event (decoded_lines ?envg ''https://ntfy.sh/t'' [] ?good),
           None), [?req])"
    using Poll_collects_in_order [OF u, of ?envg "[with_title]" with_poll] g1 opts g3 g4 g5 g6
    by blast
  have bad: "Poll ?envb ?config with_poll ''t'' [with_title]
      = (Returns (filter is_message_event (decoded_lines ?envb ''https://ntfy.sh/t'' [] [line_hi]),
           Some (ErrorString ''invalid character'')), [?req])"
    using Poll_collects_in_order [OF u, of ?envb "[with_title]" with_poll] b1 opts b3 g4 b5 b6 b7
    by blast
  show ?thesis
    using u g6 b7 good bad
    by (simp add: sample_defs toMessage_def is_message_event_def)
qed

section \<open>Properties of the registry\<close>

lemma reachable_handles_distinct:
  "reachable s \<Longrightarrow> handles_distinct s"
proof (induction rule: reachable.induct)
  case (start config)
  show ?case by (simp add: handles_distinct_def New_def)
next
  case (subscribe c rt random topic options r c' rt')
  show ?case
  proof (cases "expandTopicURL (client_config c) topic")
    case (Inl err)
    with subscribe show ?thesis by (simp add: Subscribe_def)
  next
    case (Inr topicURL)
    with subscribe.hyps(2) have
      c': "subscriptions c' = (subscriptions c)(random \<mapsto>
          \<lparr>sub_ID = random, sub_topicURL = topicURL, sub_cancel = contexts rt\<rparr>)"
      and rt': "contexts rt' = Suc (contexts rt)"
      by (auto simp: Subscribe_def Let_def)
    from subscribe.IH have
      old: "\<And>i sub. subscriptions c i = Some sub \<Longrightarrow> sub_cancel sub < contexts rt"
      and inj: "\<And>i j sub sub'. subscriptions c i = Some sub \<Longrightarrow> subscriptions c j = Some sub'
          \<Longrightarrow> i \<noteq> j \<Longrightarrow> sub_cancel sub \<noteq> sub_cancel sub'"
      by (auto simp: handles_distinct_def)
    show ?thesis
      unfolding handles_distinct_def
      using old inj by (auto simp: c' rt' less_Suc_eq split: if_splits dest: old)
  qed
next
  case (unsubscribe c rt subscriptionID c' rt')
  then show ?case
    by (auto simp: handles_distinct_def Unsubscribe_def split: option.splits if_splits)
next
  case (deliver c rt ms)
  then show ?case by (simp add: handles_distinct_def)
qed

text \<open>
  C7. \<^verbatim>\<open>Unsubscribe\<close> with an id that is not registered changes nothing. With a
  registered id it removes that entry from the registry and calls that entry's cancel
  function, and nothing else changes: every other id keeps its entry, and the context of
  every other subscription is canceled after the call exactly if it was before.
\<close>

theorem Unsubscribe_frame:
  assumes "reachable (c, rt)" and "Unsubscribe c rt subscriptionID = (c', rt')"
  shows "(subscriptions c subscriptionID = None \<longrightarrow> c' = c \<and> rt' = rt)
     \<and> (\<forall>sub. subscriptions c subscriptionID = Some sub \<longrightarrow>
           c' = c\<lparr>subscriptions := (subscriptions c)(subscriptionID := None)\<rparr>
           \<and> rt' = rt\<lparr>canceled := insert (sub_cancel sub) (canceled rt)\<rparr>)
     \<and> (\<forall>other sub'. other \<noteq> subscriptionID \<and> subscriptions c other = Some sub' \<longrightarrow>
           subscriptions c' other = Some sub'
           \<and> (sub_cancel sub' \<in> canceled rt') = (sub_cancel sub' \<in> canceled rt))"
proof (cases "subscriptions c subscriptionID")
  case None
  with assms(2) show ?thesis by (simp add: Unsubscribe_def)
next
  case (Some sub)
  from assms(1) have "handles_distinct (c, rt)" by (rule reachable_handles_distinct)
  with Some have other: "\<And>other sub'. other \<noteq> subscriptionID \<Longrightarrow>
      subscriptions c other = Some sub' \<Longrightarrow> sub_cancel sub' \<noteq> sub_cancel sub"
    unfolding handles_distinct_def by blast
  from Some assms(2) have
    c': "c' = c\<lparr>subscriptions := (subscriptions c)(subscriptionID := None)\<rparr>"
    and rt': "rt' = rt\<lparr>canceled := insert (sub_cancel sub) (canceled rt)\<rparr>"
    by (simp_all add: Unsubscribe_def)
  show ?thesis
    using Some other by (auto simp: c' rt')
qed

theorem Unsubscribe_frame_witness:
  "reachable two_subscriptions
   \<and> subscriptions (fst two_subscriptions) ''aaaaaaaaaa''
       = Some \<lparr>sub_ID = ''aaaaaaaaaa'', sub_topicURL = ''https://ntfy.sh/t1'', sub_cancel = 0\<rparr>
   \<and> subscriptions (fst two_subscriptions) ''bbbbbbbbbb''
       = Some \<lparr>sub_ID = ''bbbbbbbbbb'', sub_topicURL = ''https://ntfy.sh/t2'', sub_cancel = 1\<rparr>
   \<and> subscriptions (fst two_subscriptions) ''zzzzzzzzzz'' = None
   \<and> Unsubscribe (fst two_subscriptions) (snd two_subscriptions) ''zzzzzzzzzz''
       = two_subscriptions
   \<and> subscriptions
        (fst (Unsubscribe (fst two_subscriptions) (snd two_subscriptions) ''aaaaaaaaaa''))
        ''aaaaaaaaaa'' = None
   \<and> subscriptions
        (fst (Unsubscribe (fst two_subscriptions) (snd two_subscriptions) ''aaaaaaaaaa''))
        ''bbbbbbbbbb''
       = Some \<lparr>sub_ID = ''bbbbbbbbbb'', sub_topicURL = ''https://ntfy.sh/t2'', sub_cancel = 1\<rparr>
   \<and> canceled (snd two_subscriptions) = {}
   \<and> canceled (snd (Unsubscribe (fst two_subscriptions) (snd two_subscriptions) ''aaaaaaaaaa''))
       = {0}"
proof -
  have url1: "expandTopicURL \<lparr>DefaultHost = ''https://ntfy.sh''\<rparr> ''t1'' = Inr ''https://ntfy.sh/t1''"
    and url2: "expandTopicURL \<lparr>DefaultHost = ''https://ntfy.sh''\<rparr> ''t2'' = Inr ''https://ntfy.sh/t2''"
    by (simp_all add: expandTopicURL_def HasPrefix_def Contains_slash_def
        topicRegex_MatchString_def topic_char_def)
  have r0: "reachable fresh_client"
    unfolding fresh_client_def by (rule reachable.start)
  have r1: "reachable one_subscription"
    using reachable.subscribe [of "fst fresh_client" "snd fresh_client" "''aaaaaaaaaa''" "''t1''" "[]"
        "fst (Subscribe (fst fresh_client) (snd fresh_client) ''aaaaaaaaaa'' ''t1'' [])"
        "fst one_subscription" "snd one_subscription"] r0
    by (simp add: one_subscription_def)
  have r2: "reachable two_subscriptions"
    using reachable.subscribe [of "fst one_subscription" "snd one_subscription" "''bbbbbbbbbb''"
        "''t2''" "[]"
        "fst (Subscribe (fst one_subscription) (snd one_subscription) ''bbbbbbbbbb'' ''t2'' [])"
        "fst two_subscriptions" "snd two_subscriptions"] r1
    by (simp add: two_subscriptions_def)
  have a: "subscriptions (fst two_subscriptions) ''aaaaaaaaaa''
       = Some \<lparr>sub_ID = ''aaaaaaaaaa'', sub_topicURL = ''https://ntfy.sh/t1'', sub_cancel = 0\<rparr>"
    and b: "subscriptions (fst two_subscriptions) ''bbbbbbbbbb''
       = Some \<lparr>sub_ID = ''bbbbbbbbbb'', sub_topicURL = ''https://ntfy.sh/t2'', sub_cancel = 1\<rparr>"
    and z: "subscriptions (fst two_subscriptions) ''zzzzzzzzzz'' = None"
    and none: "canceled (snd two_subscriptions) = {}"
    by (simp_all add: two_subscriptions_def one_subscription_def fresh_client_def Subscribe_def
        New_def Let_def url1 url2)
  have ua: "Unsubscribe (fst two_subscriptions) (snd two_subscriptions) ''aaaaaaaaaa''
      = (fst (Unsubscribe (fst two_subscriptions) (snd two_subscriptions) ''aaaaaaaaaa''),
         snd (Unsubscribe (fst two_subscriptions) (snd two_subscriptions) ''aaaaaaaaaa''))"
    and uz: "Unsubscribe (fst two_subscriptions) (snd two_subscriptions) ''zzzzzzzzzz''
      = (fst (Unsubscribe (fst two_subscriptions) (snd two_subscriptions) ''zzzzzzzzzz''),
         snd (Unsubscribe (fst two_subscriptions) (snd two_subscriptions) ''zzzzzzzzzz''))"
    by simp_all
  have r2': "reachable (fst two_subscriptions, snd two_subscriptions)"
    using r2 by simp
  show ?thesis
    using r2 a b z none Unsubscribe_frame [OF r2' ua] Unsubscribe_frame [OF r2' uz]
    by (auto simp: prod_eq_iff)
qed

section \<open>Properties of the reconnect loop\<close>

lemma select_timer_not_early:
  "select_done_or_timer cancel_at now lag choose_done = (False, t) \<Longrightarrow> now + retry_delay \<le> t"
  by (auto simp: select_done_or_timer_def Let_def split: option.splits)

lemma select_done_canceled:
  "select_done_or_timer cancel_at now lag choose_done = (True, t) \<Longrightarrow>
   \<exists>tc. cancel_at = Some tc \<and> tc \<le> t"
  by (auto simp: select_done_or_timer_def Let_def split: option.splits)

lemma select_never_canceled:
  "select_done_or_timer None now lag choose_done = (False, now + retry_delay + lag)"
  by (simp add: select_done_or_timer_def Let_def)

lemma loop_events_head:
  "snd (snd (snd (handleSubscribeConnLoop rounds cancel_at now msgChan topicURL sid options)))
     = [] \<or>
   (\<exists>rest. snd (snd (snd (handleSubscribeConnLoop rounds cancel_at now msgChan topicURL sid options)))
     = AttemptStarted now # rest)"
  by (cases rounds) (auto split: prod.splits go.splits bool.splits)

lemma loop_delayed_starts:
  "delayed_starts (snd (snd (snd
     (handleSubscribeConnLoop rounds cancel_at now msgChan topicURL sid options))))"
proof (induction rounds arbitrary: now msgChan)
  case Nil
  show ?case by simp
next
  case (Cons r rounds)
  obtain res msgChan' reqs where
    attempt: "performSubscribeRequest (round_env r) msgChan topicURL sid options
      = (res, msgChan', reqs)"
    by (cases "performSubscribeRequest (round_env r) msgChan topicURL sid options") auto
  show ?case
  proof (cases res)
    case Panics
    with attempt show ?thesis by simp
  next
    case (Returns err)
    obtain cancelled t where
      sel: "select_done_or_timer cancel_at (now + attempt_ns r) (lag_ns r) (prefer_done r)
        = (cancelled, t)"
      by (cases "select_done_or_timer cancel_at (now + attempt_ns r) (lag_ns r) (prefer_done r)")
    show ?thesis
    proof (cases cancelled)
      case True
      with attempt Returns sel show ?thesis by simp
    next
      case False
      with sel have "select_done_or_timer cancel_at (now + attempt_ns r) (lag_ns r)
          (prefer_done r) = (False, t)"
        by simp
      then have late: "now + attempt_ns r + retry_delay \<le> t"
        by (rule select_timer_not_early)
      let ?rest = "snd (snd (snd
        (handleSubscribeConnLoop rounds cancel_at t msgChan' topicURL sid options)))"
      have ih: "delayed_starts ?rest" by (rule Cons.IH)
      have events: "snd (snd (snd
          (handleSubscribeConnLoop (r # rounds) cancel_at now msgChan topicURL sid options)))
        = AttemptStarted now # AttemptEnded (now + attempt_ns r) # ?rest"
        using attempt Returns sel False by (simp split: prod.splits)
      from loop_events_head [of rounds cancel_at t msgChan' topicURL sid options]
      show ?thesis
      proof
        assume "?rest = []"
        with events show ?thesis by simp
      next
        assume "\<exists>rest. ?rest = AttemptStarted t # rest"
        then obtain rest where rest: "?rest = AttemptStarted t # rest" by blast
        with ih late show ?thesis unfolding events by simp
      qed
    qed
  qed
qed

lemma loop_step_timer:
  assumes "performSubscribeRequest (round_env r) msgChan topicURL sid options
      = (Returns err, msgChan', reqs)"
    and "select_done_or_timer cancel_at (now + attempt_ns r) (lag_ns r) (prefer_done r)
      = (False, t)"
  shows "handleSubscribeConnLoop (r # rounds) cancel_at now msgChan topicURL sid options =
     (fst (handleSubscribeConnLoop rounds cancel_at t msgChan' topicURL sid options),
      fst (snd (handleSubscribeConnLoop rounds cancel_at t msgChan' topicURL sid options)),
      connection_failed topicURL err
        @ fst (snd (snd (handleSubscribeConnLoop rounds cancel_at t msgChan' topicURL sid options))),
      AttemptStarted now # AttemptEnded (now + attempt_ns r)
        # snd (snd (snd (handleSubscribeConnLoop rounds cancel_at t msgChan' topicURL sid options))))"
  using assms by (simp split: prod.splits)

lemma loop_step_done:
  assumes "performSubscribeRequest (round_env r) msgChan topicURL sid options
      = (Returns err, msgChan', reqs)"
    and "select_done_or_timer cancel_at (now + attempt_ns r) (lag_ns r) (prefer_done r)
      = (True, t)"
  shows "handleSubscribeConnLoop (r # rounds) cancel_at now msgChan topicURL sid options =
     (Exited, msgChan', connection_failed topicURL err @ [Info topicURL],
      [AttemptStarted now, AttemptEnded (now + attempt_ns r), LoopExited t])"
  using assms by simp

lemma never_panics_Cons:
  assumes "never_panics (r # rounds) topicURL sid options"
  shows "never_panics rounds topicURL sid options"
    and "\<exists>err msgChan' reqs. performSubscribeRequest (round_env r) msgChan topicURL sid options
      = (Returns err, msgChan', reqs)"
proof -
  show "never_panics rounds topicURL sid options"
    using assms by (simp add: never_panics_def)
  from assms have "fst (performSubscribeRequest (round_env r) msgChan topicURL sid options)
      \<noteq> Panics"
    by (simp add: never_panics_def)
  then show "\<exists>err msgChan' reqs. performSubscribeRequest (round_env r) msgChan topicURL sid options
      = (Returns err, msgChan', reqs)"
    by (cases "performSubscribeRequest (round_env r) msgChan topicURL sid options";
        cases "fst (performSubscribeRequest (round_env r) msgChan topicURL sid options)") auto
qed

lemma loop_never_canceled:
  "never_panics rounds topicURL sid options \<Longrightarrow>
   fst (handleSubscribeConnLoop rounds None now msgChan topicURL sid options) = Running
   \<and> attempts (snd (snd (snd
        (handleSubscribeConnLoop rounds None now msgChan topicURL sid options)))) = length rounds"
proof (induction rounds arbitrary: now msgChan)
  case Nil
  show ?case by (simp add: attempts_def)
next
  case (Cons r rounds)
  from never_panics_Cons(2) [OF Cons.prems] obtain err msgChan' reqs where
    attempt: "performSubscribeRequest (round_env r) msgChan topicURL sid options
      = (Returns err, msgChan', reqs)"
    by blast
  have rest: "never_panics rounds topicURL sid options"
    using Cons.prems by (rule never_panics_Cons(1))
  let ?t = "now + attempt_ns r + retry_delay + lag_ns r"
  have sel: "select_done_or_timer None (now + attempt_ns r) (lag_ns r) (prefer_done r)
      = (False, ?t)"
    by (rule select_never_canceled)
  have ih: "fst (handleSubscribeConnLoop rounds None ?t msgChan' topicURL sid options) = Running
    \<and> attempts (snd (snd (snd
         (handleSubscribeConnLoop rounds None ?t msgChan' topicURL sid options)))) = length rounds"
    using rest by (rule Cons.IH)
  show ?case
    unfolding loop_step_timer [OF attempt sel]
    using ih by (simp add: attempts_def is_start_def)
qed

lemma loop_same_for_all_results:
  "map timing rounds = map timing rounds' \<Longrightarrow>
   never_panics rounds topicURL sid options \<Longrightarrow>
   never_panics rounds' topicURL sid options \<Longrightarrow>
   fst (handleSubscribeConnLoop rounds cancel_at now msgChan topicURL sid options)
     = fst (handleSubscribeConnLoop rounds' cancel_at now msgChan' topicURL sid options)
   \<and> snd (snd (snd (handleSubscribeConnLoop rounds cancel_at now msgChan topicURL sid options)))
     = snd (snd (snd (handleSubscribeConnLoop rounds' cancel_at now msgChan' topicURL sid options)))"
proof (induction rounds arbitrary: rounds' now msgChan msgChan')
  case Nil
  then show ?case by simp
next
  case (Cons r rounds)
  from Cons.prems(1) obtain r' rest' where
    rounds': "rounds' = r' # rest'" and same: "timing r = timing r'"
    and same_rest: "map timing rounds = map timing rest'"
    by (cases rounds') auto
  from never_panics_Cons(2) [OF Cons.prems(2)] obtain err ch reqs where
    a: "performSubscribeRequest (round_env r) msgChan topicURL sid options
      = (Returns err, ch, reqs)"
    by blast
  from Cons.prems(3) have np'': "never_panics (r' # rest') topicURL sid options"
    by (simp add: rounds')
  from never_panics_Cons(2) [OF np''] obtain err' ch' reqs' where
    a': "performSubscribeRequest (round_env r') msgChan' topicURL sid options
      = (Returns err', ch', reqs')"
    by blast
  have np: "never_panics rounds topicURL sid options"
    using Cons.prems(2) by (rule never_panics_Cons(1))
  have np': "never_panics rest' topicURL sid options"
    using np'' by (rule never_panics_Cons(1))
  from same have t: "attempt_ns r' = attempt_ns r" "lag_ns r' = lag_ns r"
    "prefer_done r' = prefer_done r"
    by (simp_all add: timing_def)
  obtain cancelled t where
    sel: "select_done_or_timer cancel_at (now + attempt_ns r) (lag_ns r) (prefer_done r)
      = (cancelled, t)"
    by (cases "select_done_or_timer cancel_at (now + attempt_ns r) (lag_ns r) (prefer_done r)")
  have sel': "select_done_or_timer cancel_at (now + attempt_ns r') (lag_ns r') (prefer_done r')
      = (cancelled, t)"
    using sel by (simp add: t)
  show ?case
  proof (cases cancelled)
    case True
    with sel sel' have
      s: "select_done_or_timer cancel_at (now + attempt_ns r) (lag_ns r) (prefer_done r)
        = (True, t)"
      and s': "select_done_or_timer cancel_at (now + attempt_ns r') (lag_ns r') (prefer_done r')
        = (True, t)"
      by simp_all
    show ?thesis
      unfolding rounds' loop_step_done [OF a s] loop_step_done [OF a' s'] by (simp add: t)
  next
    case False
    have ih: "fst (handleSubscribeConnLoop rounds cancel_at t ch topicURL sid options)
        = fst (handleSubscribeConnLoop rest' cancel_at t ch' topicURL sid options)
      \<and> snd (snd (snd (handleSubscribeConnLoop rounds cancel_at t ch topicURL sid options)))
        = snd (snd (snd (handleSubscribeConnLoop rest' cancel_at t ch' topicURL sid options)))"
      using same_rest np np' by (rule Cons.IH)
    from False sel sel' have
      s: "select_done_or_timer cancel_at (now + attempt_ns r) (lag_ns r) (prefer_done r)
        = (False, t)"
      and s': "select_done_or_timer cancel_at (now + attempt_ns r') (lag_ns r') (prefer_done r')
        = (False, t)"
      by simp_all
    show ?thesis
      unfolding rounds' loop_step_timer [OF a s] loop_step_timer [OF a' s']
      using ih by (simp add: t)
  qed
qed

text \<open>
  C8. In every run of the reconnect loop, each attempt after the first starts directly
  after the end of the previous one and at least ten seconds after it. What an attempt
  returned (no error, or an error of whatever kind) has no influence on when and whether
  the next attempt is made; an error adds one warning to the log. When the context is
  never canceled the loop keeps running and makes one attempt in every round, however many
  rounds there are. When the \<^verbatim>\<open>select\<close> after an attempt takes the cancellation, the loop
  returns without a further attempt.
\<close>

theorem reconnect_loop_fixed_delay:
  "delayed_starts (snd (snd (snd
      (handleSubscribeConnLoop rounds cancel_at now msgChan topicURL sid options))))
   \<and> (map timing rounds = map timing rounds'
        \<and> never_panics rounds topicURL sid options
        \<and> never_panics rounds' topicURL sid options \<longrightarrow>
      fst (handleSubscribeConnLoop rounds cancel_at now msgChan topicURL sid options)
        = fst (handleSubscribeConnLoop rounds' cancel_at now msgChan topicURL sid options)
      \<and> snd (snd (snd (handleSubscribeConnLoop rounds cancel_at now msgChan topicURL sid options)))
        = snd (snd (snd (handleSubscribeConnLoop rounds' cancel_at now msgChan topicURL sid options))))
   \<and> (never_panics rounds topicURL sid options \<longrightarrow>
      fst (handleSubscribeConnLoop rounds None now msgChan topicURL sid options) = Running
      \<and> attempts (snd (snd (snd
           (handleSubscribeConnLoop rounds None now msgChan topicURL sid options))))
         = length rounds)
   \<and> (performSubscribeRequest (round_env r) msgChan topicURL sid options
          = (Returns err, msgChan', reqs)
        \<and> select_done_or_timer cancel_at (now + attempt_ns r) (lag_ns r) (prefer_done r)
          = (True, t) \<longrightarrow>
      handleSubscribeConnLoop (r # rounds) cancel_at now msgChan topicURL sid options
        = (Exited, msgChan', connection_failed topicURL err @ [Info topicURL],
           [AttemptStarted now, AttemptEnded (now + attempt_ns r), LoopExited t]))
   \<and> (performSubscribeRequest (round_env r) msgChan topicURL sid options
          = (Returns err, msgChan', reqs)
        \<and> select_done_or_timer cancel_at (now + attempt_ns r) (lag_ns r) (prefer_done r)
          = (False, t) \<longrightarrow>
      now + attempt_ns r + retry_delay \<le> t
      \<and> handleSubscribeConnLoop (r # rounds) cancel_at now msgChan topicURL sid options
        = (fst (handleSubscribeConnLoop rounds cancel_at t msgChan' topicURL sid options),
           fst (snd (handleSubscribeConnLoop rounds cancel_at t msgChan' topicURL sid options)),
           connection_failed topicURL err
             @ fst (snd (snd (handleSubscribeConnLoop rounds cancel_at t msgChan' topicURL sid
                 options))),
           AttemptStarted now # AttemptEnded (now + attempt_ns r)
             # snd (snd (snd (handleSubscribeConnLoop rounds cancel_at t msgChan' topicURL sid
                 options)))))"
  using loop_delayed_starts [of rounds cancel_at now msgChan topicURL sid options]
    loop_same_for_all_results [of rounds rounds' topicURL sid options cancel_at now msgChan msgChan]
    loop_never_canceled [of rounds topicURL sid options now msgChan]
    loop_step_done [of r msgChan topicURL sid options err msgChan' reqs cancel_at now t rounds]
    loop_step_timer [of r msgChan topicURL sid options err msgChan' reqs cancel_at now t rounds]
    select_timer_not_early [of cancel_at "now + attempt_ns r" "lag_ns r" "prefer_done r" t]
  by blast

lemmas round_defs = round_decode_error_def round_refused_def round_closed_def round_of_def
  quota_response_def

lemma sample_rounds_never_panic:
  "never_panics [round_decode_error, round_refused, round_closed, round_closed]
     ''https://ntfy.sh/t'' ''sub1'' []"
  by (simp add: never_panics_def performSubscribeRequest_def round_defs sample_defs
      toMessage_def StatusOK_def maxResponseBytes_def ReadAll_LimitReader_def MessageEvent_def)

lemma sample_round_results:
  "performSubscribeRequest (round_env round_decode_error) msgChan ''https://ntfy.sh/t'' ''sub1'' []
     = (Returns (Some (ErrorString ''invalid character'')),
        msgChan @ [zero_Message\<lparr>ID := ''1'', Event := ''message'', Topic := ''t'',
          Message := ''hi'', TopicURL := ''https://ntfy.sh/t'', SubscriptionID := ''sub1'',
          Raw := line_hi\<rparr>],
        [\<lparr>Method = ''GET'', RequestURL = ''https://ntfy.sh/t/json'', Header = [],
          RequestBody = []\<rparr>])"
  "performSubscribeRequest (round_env round_refused) msgChan ''https://ntfy.sh/t'' ''sub1'' []
     = (Returns (Some (ErrorString ''quota exceeded'')), msgChan,
        [\<lparr>Method = ''GET'', RequestURL = ''https://ntfy.sh/t/json'', Header = [],
          RequestBody = []\<rparr>])"
  "performSubscribeRequest (round_env round_closed) msgChan ''https://ntfy.sh/t'' ''sub1'' []
     = (Returns None,
        msgChan @ [zero_Message\<lparr>ID := ''1'', Event := ''message'', Topic := ''t'',
          Message := ''hi'', TopicURL := ''https://ntfy.sh/t'', SubscriptionID := ''sub1'',
          Raw := line_hi\<rparr>],
        [\<lparr>Method = ''GET'', RequestURL = ''https://ntfy.sh/t/json'', Header = [],
          RequestBody = []\<rparr>])"
  by (simp_all add: performSubscribeRequest_def round_defs sample_defs
      toMessage_def StatusOK_def maxResponseBytes_def ReadAll_LimitReader_def MessageEvent_def
      TrimSpace_def leading_space_def trailing_space_def space_encoding_def)

theorem reconnect_loop_fixed_delay_witness:
  "handleSubscribeConnLoop [round_decode_error, round_refused, round_closed, round_closed]
       (Some (25 * Second)) 0 [] ''https://ntfy.sh/t'' ''sub1'' []
     = (Exited,
        [zero_Message\<lparr>ID := ''1'', Event := ''message'', Topic := ''t'', Message := ''hi'',
           TopicURL := ''https://ntfy.sh/t'', SubscriptionID := ''sub1'', Raw := line_hi\<rparr>,
         zero_Message\<lparr>ID := ''1'', Event := ''message'', Topic := ''t'', Message := ''hi'',
           TopicURL := ''https://ntfy.sh/t'', SubscriptionID := ''sub1'', Raw := line_hi\<rparr>],
        [Warn ''https://ntfy.sh/t'' (ErrorString ''invalid character''),
         Warn ''https://ntfy.sh/t'' (ErrorString ''quota exceeded''),
         Info ''https://ntfy.sh/t''],
        [AttemptStarted 0, AttemptEnded 1000000000,
         AttemptStarted 11000000000, AttemptEnded 12000000000,
         AttemptStarted 22000000000, AttemptEnded 23000000000,
         LoopExited 25000000000])
   \<and> delayed_starts
        [AttemptStarted 0, AttemptEnded 1000000000,
         AttemptStarted 11000000000, AttemptEnded 12000000000,
         AttemptStarted 22000000000, AttemptEnded 23000000000,
         LoopExited 25000000000]
   \<and> map timing [round_decode_error, round_refused] = map timing [round_closed, round_closed]
   \<and> never_panics [round_decode_error, round_refused] ''https://ntfy.sh/t'' ''sub1'' []
   \<and> never_panics [round_closed, round_closed] ''https://ntfy.sh/t'' ''sub1'' []
   \<and> snd (snd (snd (handleSubscribeConnLoop [round_decode_error, round_refused]
          (Some (25 * Second)) 0 [] ''https://ntfy.sh/t'' ''sub1'' [])))
       = snd (snd (snd (handleSubscribeConnLoop [round_closed, round_closed]
          (Some (25 * Second)) 0 [] ''https://ntfy.sh/t'' ''sub1'' [])))
   \<and> fst (handleSubscribeConnLoop [round_decode_error, round_refused, round_closed, round_closed]
          None 0 [] ''https://ntfy.sh/t'' ''sub1'' []) = Running
   \<and> attempts (snd (snd (snd (handleSubscribeConnLoop
          [round_decode_error, round_refused, round_closed, round_closed]
          None 0 [] ''https://ntfy.sh/t'' ''sub1'' [])))) = 4"
proof -
  let ?url = "''https://ntfy.sh/t''"
  let ?all = "[round_decode_error, round_refused, round_closed, round_closed]"
  let ?hi = "zero_Message\<lparr>ID := ''1'', Event := ''message'', Topic := ''t'', Message := ''hi'',
     TopicURL := ''https://ntfy.sh/t'', SubscriptionID := ''sub1'', Raw := line_hi\<rparr>"
  let ?get = "\<lparr>Method = ''GET'', RequestURL = ''https://ntfy.sh/t/json'', Header = [],
     RequestBody = []\<rparr>"
  let ?cancel = "Some (25 * Second)"
  have np: "never_panics ?all ?url ''sub1'' []"
    by (rule sample_rounds_never_panic)
  then have np_ab: "never_panics [round_decode_error, round_refused] ?url ''sub1'' []"
    and np_cc: "never_panics [round_closed, round_closed] ?url ''sub1'' []"
    by (simp_all add: never_panics_def)
  have tm: "map timing [round_decode_error, round_refused] = map timing [round_closed, round_closed]"
    by (simp add: timing_def round_defs)
  have s1: "select_done_or_timer ?cancel (0 + attempt_ns round_decode_error)
      (lag_ns round_decode_error) (prefer_done round_decode_error) = (False, 11000000000)"
    and s2: "select_done_or_timer ?cancel (11000000000 + attempt_ns round_refused)
      (lag_ns round_refused) (prefer_done round_refused) = (False, 22000000000)"
    and s3: "select_done_or_timer ?cancel (22000000000 + attempt_ns round_closed)
      (lag_ns round_closed) (prefer_done round_closed) = (True, 25000000000)"
    by (simp_all add: select_done_or_timer_def retry_delay_def Second_def round_defs Let_def)
  have step3: "handleSubscribeConnLoop [round_closed, round_closed] ?cancel 22000000000
        [?hi] ?url ''sub1'' []
      = (Exited, [?hi, ?hi], [Info ?url],
         [AttemptStarted 22000000000, AttemptEnded 23000000000, LoopExited 25000000000])"
    using reconnect_loop_fixed_delay [where r = round_closed and rounds = "[round_closed]"
        and cancel_at = ?cancel and now = 22000000000 and msgChan = "[?hi]" and topicURL = ?url
        and sid = "''sub1''" and options = "[]" and err = None and msgChan' = "[?hi, ?hi]"
        and reqs = "[?get]" and t = 25000000000]
      sample_round_results(3) [of "[?hi]"] s3
    by (simp add: connection_failed_def round_defs Second_def)
  have step2: "handleSubscribeConnLoop [round_refused, round_closed, round_closed] ?cancel
        11000000000 [?hi] ?url ''sub1'' []
      = (Exited, [?hi, ?hi], [Warn ?url (ErrorString ''quota exceeded''), Info ?url],
         [AttemptStarted 11000000000, AttemptEnded 12000000000,
          AttemptStarted 22000000000, AttemptEnded 23000000000, LoopExited 25000000000])"
    using reconnect_loop_fixed_delay [where r = round_refused
        and rounds = "[round_closed, round_closed]"
        and cancel_at = ?cancel and now = 11000000000 and msgChan = "[?hi]" and topicURL = ?url
        and sid = "''sub1''" and options = "[]" and err = "Some (ErrorString ''quota exceeded'')"
        and msgChan' = "[?hi]" and reqs = "[?get]" and t = 22000000000]
      sample_round_results(2) [of "[?hi]"] s2 step3
    by (simp add: connection_failed_def round_defs Second_def)
  have step1: "handleSubscribeConnLoop ?all ?cancel 0 [] ?url ''sub1'' []
      = (Exited, [?hi, ?hi],
         [Warn ?url (ErrorString ''invalid character''),
          Warn ?url (ErrorString ''quota exceeded''), Info ?url],
         [AttemptStarted 0, AttemptEnded 1000000000,
          AttemptStarted 11000000000, AttemptEnded 12000000000,
          AttemptStarted 22000000000, AttemptEnded 23000000000, LoopExited 25000000000])"
    using reconnect_loop_fixed_delay [where r = round_decode_error
        and rounds = "[round_refused, round_closed, round_closed]"
        and cancel_at = ?cancel and now = 0 and msgChan = "[]" and topicURL = ?url
        and sid = "''sub1''" and options = "[]" and err = "Some (ErrorString ''invalid character'')"
        and msgChan' = "[?hi]" and reqs = "[?get]" and t = 11000000000]
      sample_round_results(1) [of "[]"] s1 step2
    by (simp add: connection_failed_def round_defs Second_def)
  have spaced: "delayed_starts (snd (snd (snd
      (handleSubscribeConnLoop ?all ?cancel 0 [] ?url ''sub1'' []))))"
    using reconnect_loop_fixed_delay [where rounds = ?all and cancel_at = ?cancel and now = 0
        and msgChan = "[]" and topicURL = ?url and sid = "''sub1''" and options = "[]"]
    by blast
  have same: "snd (snd (snd (handleSubscribeConnLoop [round_decode_error, round_refused]
          ?cancel 0 [] ?url ''sub1'' [])))
       = snd (snd (snd (handleSubscribeConnLoop [round_closed, round_closed]
          ?cancel 0 [] ?url ''sub1'' [])))"
    using reconnect_loop_fixed_delay [where rounds = "[round_decode_error, round_refused]"
        and rounds' = "[round_closed, round_closed]" and cancel_at = ?cancel and now = 0
        and msgChan = "[]" and topicURL = ?url and sid = "''sub1''" and options = "[]"]
      tm np_ab np_cc
    by blast
  have forever: "fst (handleSubscribeConnLoop ?all None 0 [] ?url ''sub1'' []) = Running
     \<and> attempts (snd (snd (snd (handleSubscribeConnLoop ?all None 0 [] ?url ''sub1'' []))))
         = length ?all"
    using reconnect_loop_fixed_delay [where rounds = ?all and now = 0
        and msgChan = "[]" and topicURL = ?url and sid = "''sub1''" and options = "[]"] np
    by blast
  from spaced have spaced': "delayed_starts
        [AttemptStarted 0, AttemptEnded 1000000000,
         AttemptStarted 11000000000, AttemptEnded 12000000000,
         AttemptStarted 22000000000, AttemptEnded 23000000000,
         LoopExited 25000000000]"
    unfolding step1 by simp
  from step1 spaced' tm np_ab np_cc same forever show ?thesis
    by simp
qed

end
